theory Spec2Isabelle
  imports Complex_Main "HOL-Library.AList" "HOL-Library.Sublist"
begin

section \<open>Data model\<close>

text \<open>
  A shallow embedding of \<^verbatim>\<open>src/HTTPCache.ts\<close> and \<^verbatim>\<open>src/utils/response-body.util.ts\<close>.

  A JavaScript number is a real number or \<^verbatim>\<open>NaN\<close> (the infinities and the rounding
  of floating point are not modelled); HTTP status codes are of type \<^typ>\<open>int\<close>; strings as \<^typ>\<open>string\<close>; optional fields and
  \<^verbatim>\<open>undefined\<close> as \<^typ>\<open>'a option\<close>; a rejected promise or a thrown exception as the
  left summand of \<open>error + 'a\<close>.
\<close>

datatype number = Num real | NaN

text \<open>
  The operators the cache applies to numbers: a comparison with \<^verbatim>\<open>NaN\<close> is false, and
  arithmetic on \<^verbatim>\<open>NaN\<close> gives \<^verbatim>\<open>NaN\<close>. \<open>num_lt\<close> is \<^verbatim>\<open><\<close>, \<open>num_le\<close> is \<^verbatim>\<open><=\<close>,
  \<open>num_times\<close> is \<^verbatim>\<open>*\<close>, \<open>num_div1000\<close> is \<^verbatim>\<open>x / 1000\<close>.
\<close>

fun num_lt :: "number \<Rightarrow> number \<Rightarrow> bool" where
  "num_lt (Num a) (Num b) = (a < b)"
| "num_lt a b = False"

fun num_le :: "number \<Rightarrow> number \<Rightarrow> bool" where
  "num_le (Num a) (Num b) = (a \<le> b)"
| "num_le a b = False"

fun num_times :: "number \<Rightarrow> number \<Rightarrow> number" where
  "num_times (Num a) (Num b) = Num (a * b)"
| "num_times a b = NaN"

fun num_div1000 :: "number \<Rightarrow> number" where
  "num_div1000 (Num a) = Num (a / 1000)"
| "num_div1000 NaN = NaN"

datatype error = TransportError | StoreError | PolicyError | ParseError | OptionsError

subsection \<open>The \<^verbatim>\<open>Headers\<close> class of the transport\<close>

text \<open>
  \<^verbatim>\<open>Headers\<close> belongs to the transport library. The model keeps the table that \<^verbatim>\<open>raw()\<close>
  gives: each name with the list of its values. As node-fetch 2 does, the table keeps a name
  in the spelling it was first given, and \<^verbatim>\<open>has\<close>, \<^verbatim>\<open>get\<close> and \<^verbatim>\<open>append\<close> find a name
  whatever its case; \<^verbatim>\<open>get\<close> joins the values of a name with a comma and a space.
\<close>

type_synonym Headers = "(string \<times> string list) list"

definition toLowerCase_char :: "char \<Rightarrow> char" where
  "toLowerCase_char c =
     (case map_of (zip ''ABCDEFGHIJKLMNOPQRSTUVWXYZ'' ''abcdefghijklmnopqrstuvwxyz'') c of
        Some d \<Rightarrow> d
      | None \<Rightarrow> c)"

definition toLowerCase :: "string \<Rightarrow> string" where
  "toLowerCase s = map toLowerCase_char s"

text \<open>\<^verbatim>\<open>Array.prototype.join(sep)\<close>.\<close>

fun join :: "string \<Rightarrow> string list \<Rightarrow> string" where
  "join sep [] = []"
| "join sep [v] = v"
| "join sep (v # w # vs) = v @ sep @ join sep (w # vs)"

text \<open>The key of the table that spells \<open>name\<close>, in whatever case.\<close>

definition headers_find :: "Headers \<Rightarrow> string \<Rightarrow> string option" where
  "headers_find hs name = find (\<lambda>k. toLowerCase k = toLowerCase name) (map fst hs)"

definition headers_has :: "Headers \<Rightarrow> string \<Rightarrow> bool" where
  "headers_has hs name = (headers_find hs name \<noteq> None)"

definition headers_get :: "Headers \<Rightarrow> string \<Rightarrow> string option" where
  "headers_get hs name =
     (case headers_find hs name of
        None \<Rightarrow> None
      | Some k \<Rightarrow> map_option (join '', '') (map_of hs k))"

definition headers_append :: "Headers \<Rightarrow> string \<times> string \<Rightarrow> Headers" where
  "headers_append hs nv =
     (case headers_find hs (fst nv) of
        None \<Rightarrow> hs @ [(fst nv, [snd nv])]
      | Some k \<Rightarrow> AList.map_entry k (\<lambda>vs. vs @ [snd nv]) hs)"

text \<open>\<^verbatim>\<open>new Headers(listOfPairs)\<close> appends the pairs one after the other.\<close>

definition headers_of_list :: "(string \<times> string) list \<Rightarrow> Headers" where
  "headers_of_list nvs = foldl headers_append [] nvs"

text \<open>
  Iterating a \<^verbatim>\<open>Headers\<close> object that is not node-fetch's (the Fetch standard): each name in
  lower case with its values joined, but one pair for every value of \<^verbatim>\<open>set-cookie\<close>. The
  standard also sorts the names, which the model does not: the pairs only fill an object.
\<close>

definition headers_entries :: "Headers \<Rightarrow> (string \<times> string) list" where
  "headers_entries hs =
     concat (map (\<lambda>(name, vs).
               if toLowerCase name = ''set-cookie'' then map (Pair (toLowerCase name)) vs
               else [(toLowerCase name, join '', '' vs)]) hs)"

subsection \<open>Requests, responses, cache entries\<close>

text \<open>
  \<^verbatim>\<open>FetcherResponse\<close>: \<open>hasRaw\<close> is the test
  \<^verbatim>\<open>response.headers instanceof NodeFetchHeaders && 'raw' in response.headers\<close>;
  \<open>bodyText\<close> is what \<^verbatim>\<open>response.text()\<close> resolves to.
\<close>

record Response =
  url :: "string option"
  status :: int
  headers :: Headers
  hasRaw :: bool
  bodyText :: string

text \<open>
  \<^verbatim>\<open>new NodeFetchResponse('', {url, status, headers})\<close>. The body is the empty string, for
  which node-fetch adds the content type of a text unless the headers have one.
\<close>

definition NodeFetchResponse :: "string option \<Rightarrow> int \<Rightarrow> (string \<times> string) list \<Rightarrow> Response" where
  "NodeFetchResponse u st hdrs =
     (let hs = headers_of_list hdrs in
      \<lparr>url = u, status = st,
       headers = (if headers_has hs ''Content-Type'' then hs
                  else headers_append hs (''Content-Type'', ''text/plain;charset=UTF-8'')),
       hasRaw = True, bodyText = []\<rparr>)"

text \<open>
  \<^verbatim>\<open>RequestOptions\<close>: the fields the cache reads. \<open>reqMethod\<close> is the field
  \<^verbatim>\<open>method\<close>; \<open>reqHeaders\<close> is the field \<^verbatim>\<open>headers\<close>, a \<^verbatim>\<open>Record<string, string>\<close>
  kept as an association list.
\<close>

record RequestOptions =
  reqMethod :: "string option"
  reqHeaders :: "(string \<times> string) list option"
  skipCache :: "bool option"

text \<open>\<^verbatim>\<open>CacheOptions\<close>: the recognised option is \<^verbatim>\<open>ttl\<close>, in seconds.\<close>

record CacheOptions =
  ttl :: "number option"

text \<open>The parsed body, \<^verbatim>\<open>object | string\<close>: \<open>'j\<close> is the type of parsed JSON values.\<close>

datatype 'j parsed = TextBody string | JsonBody 'j

text \<open>\<^verbatim>\<open>CacheItem\<close>: \<open>'obj\<close> is the serialised policy, \<^verbatim>\<open>CachePolicy.CachePolicyObject\<close>.\<close>

record ('obj, 'j) CacheItem =
  policy :: 'obj
  ttlOverride :: "number option"
  body :: "'j parsed"

section \<open>The body parser\<close>

text \<open>
  \<^verbatim>\<open>parseResponseBody\<close> of \<^verbatim>\<open>response-body.util.ts\<close>. \<open>json\<close> is \<^verbatim>\<open>JSON.parse\<close>:
  \<^verbatim>\<open>response.json()\<close> rejects where it gives \<open>None\<close>. In \<^verbatim>\<open>contentType && ...\<close> the
  empty string is falsy, as \<^verbatim>\<open>null\<close> is.
\<close>

definition parseResponseBody :: "(string \<Rightarrow> 'j option) \<Rightarrow> Response \<Rightarrow> error + 'j parsed" where
  "parseResponseBody json response =
     (let contentType = headers_get (headers response) ''Content-Type'';
          contentLength = headers_get (headers response) ''Content-Length''
      in if status response \<noteq> 204 \<and>
            contentLength \<noteq> Some ''0'' \<and>
            (case contentType of
               None \<Rightarrow> False
             | Some ct \<Rightarrow> ct \<noteq> [] \<and> (prefix ''application/json'' ct \<or> suffix ''+json'' ct))
         then (case json (bodyText response) of
                 None \<Rightarrow> Inl ParseError
               | Some j \<Rightarrow> Inr (JsonBody j))
         else Inr (TextBody (bodyText response)))"

section \<open>The collaborators of the cache\<close>

subsection \<open>The cache policy evaluator\<close>

text \<open>
  \<^verbatim>\<open>SneakyCachePolicy\<close>: the two internal properties the cache reaches for, \<^verbatim>\<open>_url\<close> and
  \<^verbatim>\<open>_status\<close>, are fields; \<open>p_rest\<close> is the rest of the policy object, opaque here.
\<close>

record 'x CachePolicy =
  p_url :: "string option"
  p_status :: int
  p_rest :: 'x

text \<open>
  \<^verbatim>\<open>CachePolicy.Headers\<close>: a header value is a string, an array of strings or
  \<^verbatim>\<open>undefined\<close>; the object is kept as the list \<^verbatim>\<open>Object.entries\<close> gives.
\<close>

datatype hvalue = HString string | HArray "string list" | HUndefined

type_synonym CachePolicyHeaders = "(string \<times> hvalue) list"

text \<open>The request and response descriptors handed to the evaluator.\<close>

record PolicyRequest =
  pr_url :: string
  pr_method :: string
  pr_headers :: "(string \<times> string) list"

record PolicyResponse =
  ps_status :: int
  ps_headers :: CachePolicyHeaders

typedecl HttpCacheSemanticsOptions

text \<open>
  The environment of one call of \<^verbatim>\<open>HTTPCache.fetch\<close>: the constructor arguments
  (\<^verbatim>\<open>httpFetch\<close>, \<^verbatim>\<open>parseBody\<close>, the key-value cache with its state \<open>'s\<close>) and the
  methods of the evaluator library. Each is called at most once in a call of \<^verbatim>\<open>fetch\<close>,
  so what a method answers at the time of its call is a function of its arguments.
  A \<^verbatim>\<open>get\<close> may change the store (an expired key is deleted); a \<^verbatim>\<open>set\<close> that fails
  fails in its promise only, which the result hands to the caller.
\<close>

record ('x, 'obj, 'j, 's) env =
  httpFetch :: "string \<Rightarrow> RequestOptions \<Rightarrow> error + Response"
  parseBody :: "Response \<Rightarrow> error + 'j parsed"
  kv_get :: "string \<Rightarrow> 's \<Rightarrow> (error + ('obj, 'j) CacheItem option) \<times> 's"
  kv_set :: "string \<Rightarrow> ('obj, 'j) CacheItem \<Rightarrow> CacheOptions \<Rightarrow> 's \<Rightarrow> 's"
  newCachePolicy ::
    "PolicyRequest \<Rightarrow> PolicyResponse \<Rightarrow> HttpCacheSemanticsOptions option \<Rightarrow> 'x CachePolicy"
  fromObject :: "'obj \<Rightarrow> error + 'x CachePolicy"
  toObject :: "'x CachePolicy \<Rightarrow> 'obj"
  age :: "'x CachePolicy \<Rightarrow> number"
  satisfiesWithoutRevalidation :: "'x CachePolicy \<Rightarrow> PolicyRequest \<Rightarrow> bool"
  responseHeaders :: "'x CachePolicy \<Rightarrow> CachePolicyHeaders"
  revalidationHeaders :: "'x CachePolicy \<Rightarrow> PolicyRequest \<Rightarrow> CachePolicyHeaders"
  revalidatedPolicy ::
    "'x CachePolicy \<Rightarrow> PolicyRequest \<Rightarrow> PolicyResponse \<Rightarrow> 'x CachePolicy \<times> bool"
  storable :: "'x CachePolicy \<Rightarrow> bool"
  timeToLive :: "'x CachePolicy \<Rightarrow> number"

subsection \<open>The world: the store and the calls made\<close>

datatype ('obj, 'j) call =
    KvGet string
  | KvSet string "('obj, 'j) CacheItem" CacheOptions
  | HttpFetch string RequestOptions

record ('obj, 'j, 's) world =
  store :: 's
  calls :: "('obj, 'j) call list"

text \<open>\<^verbatim>\<open>this.httpFetch(url, request)\<close>.\<close>

definition callHttpFetch ::
  "('x, 'obj, 'j, 's) env \<Rightarrow> string \<Rightarrow> RequestOptions \<Rightarrow> ('obj, 'j, 's) world
     \<Rightarrow> (error + Response) \<times> ('obj, 'j, 's) world" where
  "callHttpFetch E u request w =
     (httpFetch E u request, w\<lparr>calls := calls w @ [HttpFetch u request]\<rparr>)"

text \<open>
  \<^verbatim>\<open>this.keyValueCache\<close> is the store wrapped in a \<^verbatim>\<open>PrefixingKeyValueCache\<close>, which puts
  \<^verbatim>\<open>'httpcache:'\<close> in front of every key.
\<close>

definition keyValueCache_get ::
  "('x, 'obj, 'j, 's) env \<Rightarrow> string \<Rightarrow> ('obj, 'j, 's) world
     \<Rightarrow> (error + ('obj, 'j) CacheItem option) \<times> ('obj, 'j, 's) world" where
  "keyValueCache_get E key w =
     (case kv_get E (''httpcache:'' @ key) (store w) of
        (r, s') \<Rightarrow> (r, \<lparr>store = s', calls = calls w @ [KvGet (''httpcache:'' @ key)]\<rparr>))"

definition keyValueCache_set ::
  "('x, 'obj, 'j, 's) env \<Rightarrow> string \<Rightarrow> ('obj, 'j) CacheItem \<Rightarrow> CacheOptions
     \<Rightarrow> ('obj, 'j, 's) world \<Rightarrow> ('obj, 'j, 's) world" where
  "keyValueCache_set E key entry opts w =
     \<lparr>store = kv_set E (''httpcache:'' @ key) entry opts (store w),
      calls = calls w @ [KvSet (''httpcache:'' @ key) entry opts]\<rparr>"

section \<open>The helpers of HTTPCache.ts\<close>

definition canBeRevalidated :: "Response \<Rightarrow> bool" where
  "canBeRevalidated response =
     (headers_has (headers response) ''ETag'' \<or> headers_has (headers response) ''Last-Modified'')"

definition policyRequestFrom :: "string \<Rightarrow> RequestOptions \<Rightarrow> PolicyRequest" where
  "policyRequestFrom u request =
     \<lparr>pr_url = u,
      pr_method = (case reqMethod request of None \<Rightarrow> ''GET'' | Some m \<Rightarrow> m),
      pr_headers = (case reqHeaders request of None \<Rightarrow> [] | Some h \<Rightarrow> h)\<rparr>"

definition nodeFetchHeadersToCachePolicyHeaders :: "Headers \<Rightarrow> CachePolicyHeaders" where
  "nodeFetchHeadersToCachePolicyHeaders hs =
     foldl (\<lambda>cachePolicyHeaders (name, values).
              AList.update name
                (case values of [v] \<Rightarrow> HString v | _ \<Rightarrow> HArray values) cachePolicyHeaders)
           [] hs"

text \<open>\<^verbatim>\<open>Object.fromEntries\<close>: a name that comes again takes the later value.\<close>

definition Object_fromEntries :: "(string \<times> string) list \<Rightarrow> CachePolicyHeaders" where
  "Object_fromEntries nvs = foldl (\<lambda>obj (name, v). AList.update name (HString v) obj) [] nvs"

definition policyResponseFrom :: "Response \<Rightarrow> PolicyResponse" where
  "policyResponseFrom response =
     \<lparr>ps_status = status response,
      ps_headers =
        (if hasRaw response then nodeFetchHeadersToCachePolicyHeaders (headers response)
         else Object_fromEntries (headers_entries (headers response)))\<rparr>"

fun cachePolicyHeadersToNodeFetchHeadersInit :: "CachePolicyHeaders \<Rightarrow> (string \<times> string) list" where
  "cachePolicyHeadersToNodeFetchHeadersInit [] = []"
| "cachePolicyHeadersToNodeFetchHeadersInit ((name, HArray vs) # hs) =
     map (Pair name) vs @ cachePolicyHeadersToNodeFetchHeadersInit hs"
| "cachePolicyHeadersToNodeFetchHeadersInit ((name, HString v) # hs) =
     (if v \<noteq> [] then [(name, v)] else []) @ cachePolicyHeadersToNodeFetchHeadersInit hs"
| "cachePolicyHeadersToNodeFetchHeadersInit ((name, HUndefined) # hs) =
     cachePolicyHeadersToNodeFetchHeadersInit hs"

text \<open>
  The loop of \<^verbatim>\<open>cachePolicyHeadersToFetcherHeadersInit\<close>, with the record built so far:
  \<^verbatim>\<open>headerRecord[name] = v\<close> is \<^const>\<open>AList.update\<close>.
\<close>

fun headerRecordFrom ::
  "(string \<times> string) list \<Rightarrow> CachePolicyHeaders \<Rightarrow> (string \<times> string) list" where
  "headerRecordFrom headerRecord [] = headerRecord"
| "headerRecordFrom headerRecord ((name, HArray vs) # hs) =
     headerRecordFrom (AList.update name (join '', '' vs) headerRecord) hs"
| "headerRecordFrom headerRecord ((name, HString v) # hs) =
     (if v \<noteq> [] then headerRecordFrom (AList.update name v headerRecord) hs
      else headerRecordFrom headerRecord hs)"
| "headerRecordFrom headerRecord ((name, HUndefined) # hs) = headerRecordFrom headerRecord hs"

definition cachePolicyHeadersToFetcherHeadersInit ::
  "CachePolicyHeaders \<Rightarrow> (string \<times> string) list" where
  "cachePolicyHeadersToFetcherHeadersInit hs = headerRecordFrom [] hs"

text \<open>
  What the loop of \<^verbatim>\<open>cachePolicyHeadersToFetcherHeadersInit\<close> writes for one header value,
  lines 377 to 381: the joined array, the string unless it is empty (\<^verbatim>\<open>else if (value)\<close>),
  nothing for \<^verbatim>\<open>undefined\<close>.
\<close>

definition fetcherHeaderValue :: "hvalue \<Rightarrow> string option" where
  "fetcherHeaderValue v =
     (case v of
        HArray vs \<Rightarrow> Some (join '', '' vs)
      | HString s \<Rightarrow> (if s \<noteq> [] then Some s else None)
      | HUndefined \<Rightarrow> None)"

section \<open>The cache orchestrator\<close>

text \<open>
  The \<^verbatim>\<open>cache\<close> argument of \<^verbatim>\<open>fetch\<close>. Its \<^verbatim>\<open>cacheOptions\<close> are a value or a function of
  the URL, the response and the request, which may throw and may give \<^verbatim>\<open>undefined\<close>.
\<close>

datatype cacheOptionsArg =
    Static CacheOptions
  | Computed "string \<Rightarrow> Response \<Rightarrow> RequestOptions \<Rightarrow> error + CacheOptions option"

record CacheArg =
  cacheKey :: "string option"
  cacheOptions :: "cacheOptionsArg option"
  httpCacheSemanticsCachePolicyOptions :: "HttpCacheSemanticsOptions option"

text \<open>
  A write that was started: the arguments of the \<^verbatim>\<open>set\<close> that \<^verbatim>\<open>writeToCache\<close> calls.
  It stands for the promise that \<^verbatim>\<open>writeToCache\<close> returns.
\<close>

record ('obj, 'j) CacheWrite =
  w_key :: string
  w_entry :: "('obj, 'j) CacheItem"
  w_options :: CacheOptions

text \<open>\<^verbatim>\<open>ResponseWithCacheWritePromise\<close>; an optional field that is not set is \<open>None\<close>.\<close>

record ('obj, 'j) ResponseWithCacheWritePromise =
  response :: Response
  parsedBody :: "'j parsed"
  responseFromCache :: "bool option"
  cacheWritePromise :: "('obj, 'j) CacheWrite option"

text \<open>
  A \<^verbatim>\<open>number | undefined\<close> as a condition: \<^verbatim>\<open>undefined\<close>, \<^verbatim>\<open>0\<close> and \<^verbatim>\<open>NaN\<close> are falsy.
\<close>

fun truthy :: "number option \<Rightarrow> bool" where
  "truthy None = False"
| "truthy (Some NaN) = False"
| "truthy (Some (Num t)) = (t \<noteq> 0)"

text \<open>\<^verbatim>\<open>Math.round\<close>: the nearest integer, a half rounded up; \<^verbatim>\<open>NaN\<close> for \<^verbatim>\<open>NaN\<close>.\<close>

fun Math_round :: "number \<Rightarrow> number" where
  "Math_round (Num x) = Num (of_int \<lfloor>x + 1 / 2\<rfloor>)"
| "Math_round NaN = NaN"

text \<open>
  \<^verbatim>\<open>writeToCache\<close> runs up to its call of \<^verbatim>\<open>set\<close> before it returns its promise, so the
  \<^verbatim>\<open>set\<close> is among the calls made when \<^verbatim>\<open>fetch\<close> returns.
  \<^verbatim>\<open>{...cacheOptions, ttl}\<close> is the record update.
\<close>

definition writeToCache ::
  "('x, 'obj, 'j, 's) env \<Rightarrow> 'j parsed \<Rightarrow> 'x CachePolicy \<Rightarrow> CacheOptions option \<Rightarrow> number
     \<Rightarrow> number option \<Rightarrow> string \<Rightarrow> ('obj, 'j, 's) world
     \<Rightarrow> ('obj, 'j) CacheWrite \<times> ('obj, 'j, 's) world" where
  "writeToCache E pbody pol copts t tOverride key w =
     (let entry = \<lparr>policy = toObject E pol, ttlOverride = tOverride, body = pbody\<rparr>;
          opts = (case copts of None \<Rightarrow> \<lparr>ttl = Some t\<rparr> | Some co \<Rightarrow> co\<lparr>ttl := Some t\<rparr>)
      in (\<lparr>w_key = ''httpcache:'' @ key, w_entry = entry, w_options = opts\<rparr>,
          keyValueCache_set E key entry opts w))"

text \<open>Lines 222 to 224: a \<^verbatim>\<open>cacheOptions\<close> that is a function is called.\<close>

definition resolveCacheOptions ::
  "cacheOptionsArg option \<Rightarrow> string \<Rightarrow> Response \<Rightarrow> RequestOptions \<Rightarrow> error + CacheOptions option" where
  "resolveCacheOptions copts u resp request =
     (case copts of
        None \<Rightarrow> Inr None
      | Some (Static co) \<Rightarrow> Inr (Some co)
      | Some (Computed f) \<Rightarrow> f u resp request)"

definition storeResponseAndReturnClone ::
  "('x, 'obj, 'j, 's) env \<Rightarrow> string \<Rightarrow> Response \<Rightarrow> 'j parsed \<Rightarrow> RequestOptions
     \<Rightarrow> 'x CachePolicy \<Rightarrow> string \<Rightarrow> cacheOptionsArg option \<Rightarrow> ('obj, 'j, 's) world
     \<Rightarrow> (error + ('obj, 'j) ResponseWithCacheWritePromise) \<times> ('obj, 'j, 's) world" where
  "storeResponseAndReturnClone E u resp pbody request pol key copts w =
     (case resolveCacheOptions copts u resp request of
        Inl e \<Rightarrow> (Inl e, w)
      | Inr copts' \<Rightarrow>
          (let tOverride = (case copts' of None \<Rightarrow> None | Some co \<Rightarrow> ttl co) in
           if \<not> (truthy tOverride \<and> p_status pol \<ge> 200 \<and> p_status pol \<le> 299) \<and>
              \<not> (reqMethod request = Some ''GET'' \<and> storable E pol)
           then (Inr \<lparr>response = resp, parsedBody = pbody,
                      responseFromCache = None, cacheWritePromise = None\<rparr>, w)
           else
             (let t = (case tOverride of
                         None \<Rightarrow> Math_round (num_div1000 (timeToLive E pol))
                       | Some t' \<Rightarrow> t')
              in if num_le t (Num 0)
                 then (Inr \<lparr>response = resp, parsedBody = pbody,
                            responseFromCache = None, cacheWritePromise = None\<rparr>, w)
                 else
                   (case writeToCache E pbody pol copts'
                           (if canBeRevalidated resp then num_times t (Num 2) else t)
                           tOverride key w of
                      (wr, w') \<Rightarrow>
                        (Inr \<lparr>response = resp, parsedBody = pbody,
                              responseFromCache = None, cacheWritePromise = Some wr\<rparr>, w')))))"

text \<open>Line 77: \<^verbatim>\<open>requestOpts.method = requestOpts.method ?? 'GET'\<close>.\<close>

definition requestOptsWithMethod :: "RequestOptions \<Rightarrow> RequestOptions" where
  "requestOptsWithMethod requestOpts =
     requestOpts\<lparr>reqMethod := Some (case reqMethod requestOpts of None \<Rightarrow> ''GET'' | Some m \<Rightarrow> m)\<rparr>"

text \<open>Line 78: \<^verbatim>\<open>cache?.cacheKey ?? urlString\<close>.\<close>

definition cacheKeyFor :: "CacheArg option \<Rightarrow> string \<Rightarrow> string" where
  "cacheKeyFor cache urlString =
     (case cache of
        None \<Rightarrow> urlString
      | Some c \<Rightarrow> (case cacheKey c of None \<Rightarrow> urlString | Some k \<Rightarrow> k))"

text \<open>\<^verbatim>\<open>cache?.cacheOptions\<close>.\<close>

definition cacheOptionsOf :: "CacheArg option \<Rightarrow> cacheOptionsArg option" where
  "cacheOptionsOf cache = (case cache of None \<Rightarrow> None | Some c \<Rightarrow> cacheOptions c)"

text \<open>Lines 93 to 96: the lookup, unless \<^verbatim>\<open>skipCache\<close> is \<^verbatim>\<open>true\<close>.\<close>

definition lookup ::
  "('x, 'obj, 'j, 's) env \<Rightarrow> RequestOptions \<Rightarrow> string \<Rightarrow> ('obj, 'j, 's) world
     \<Rightarrow> (error + ('obj, 'j) CacheItem option) \<times> ('obj, 'j, 's) world" where
  "lookup E requestOpts key w =
     (if skipCache requestOpts \<noteq> Some True then keyValueCache_get E key w else (Inr None, w))"

text \<open>
  The response built from a policy, lines 144 to 148 and 191 to 197:
  \<^verbatim>\<open>new NodeFetchResponse('', {url, status: policy._status, headers: ...})\<close>.
\<close>

definition responseFromPolicy ::
  "('x, 'obj, 'j, 's) env \<Rightarrow> string option \<Rightarrow> 'x CachePolicy \<Rightarrow> Response" where
  "responseFromPolicy E u pol =
     NodeFetchResponse u (p_status pol)
       (cachePolicyHeadersToNodeFetchHeadersInit (responseHeaders E pol))"

text \<open>The request of a revalidation, lines 168 to 174.\<close>

definition revalidationRequestFor ::
  "('x, 'obj, 'j, 's) env \<Rightarrow> string \<Rightarrow> RequestOptions \<Rightarrow> 'x CachePolicy \<Rightarrow> RequestOptions" where
  "revalidationRequestFor E urlString requestOpts pol =
     requestOpts\<lparr>reqHeaders :=
       Some (cachePolicyHeadersToFetcherHeadersInit
               (revalidationHeaders E pol (policyRequestFrom urlString requestOpts)))\<rparr>"

text \<open>
  The freshness test of a hit, lines 130 to 136; \<open>pol\<close> is the policy without its URL.
\<close>

definition isFresh ::
  "('x, 'obj, 'j, 's) env \<Rightarrow> 'x CachePolicy \<Rightarrow> number option \<Rightarrow> PolicyRequest \<Rightarrow> bool" where
  "isFresh E pol tOverride preq =
     ((truthy tOverride \<and>
       (case tOverride of None \<Rightarrow> False | Some t \<Rightarrow> num_lt (age E pol) t)) \<or>
      (\<not> truthy tOverride \<and> satisfiesWithoutRevalidation E pol preq))"

text \<open>The miss path, lines 98 to 118.\<close>

definition fetchMiss ::
  "('x, 'obj, 'j, 's) env \<Rightarrow> string \<Rightarrow> RequestOptions \<Rightarrow> CacheArg option \<Rightarrow> string
     \<Rightarrow> ('obj, 'j, 's) world
     \<Rightarrow> (error + ('obj, 'j) ResponseWithCacheWritePromise) \<times> ('obj, 'j, 's) world" where
  "fetchMiss E urlString requestOpts cache key w =
     (case callHttpFetch E urlString requestOpts w of
        (r, w1) \<Rightarrow>
          (case r of
             Inl e \<Rightarrow> (Inl e, w1)
           | Inr resp \<Rightarrow>
               (let pol = newCachePolicy E (policyRequestFrom urlString requestOpts)
                            (policyResponseFrom resp)
                            (case cache of None \<Rightarrow> None
                             | Some c \<Rightarrow> httpCacheSemanticsCachePolicyOptions c)
                in case parseBody E resp of
                     Inl e \<Rightarrow> (Inl e, w1)
                   | Inr pbody \<Rightarrow>
                       storeResponseAndReturnClone E urlString resp pbody requestOpts pol key
                         (cacheOptionsOf cache) w1)))"

text \<open>
  The revalidation of a stale hit, lines 153 to 203; \<open>pol\<close> is the stored policy without its
  URL and \<open>storedBody\<close> the body of the entry.
\<close>

definition fetchRevalidate ::
  "('x, 'obj, 'j, 's) env \<Rightarrow> string \<Rightarrow> RequestOptions \<Rightarrow> CacheArg option \<Rightarrow> string
     \<Rightarrow> 'x CachePolicy \<Rightarrow> 'j parsed \<Rightarrow> ('obj, 'j, 's) world
     \<Rightarrow> (error + ('obj, 'j) ResponseWithCacheWritePromise) \<times> ('obj, 'j, 's) world" where
  "fetchRevalidate E urlString requestOpts cache key pol storedBody w =
     (let revalidationRequest = revalidationRequestFor E urlString requestOpts pol
      in case callHttpFetch E urlString revalidationRequest w of
           (r, w1) \<Rightarrow>
             (case r of
                Inl e \<Rightarrow> (Inl e, w1)
              | Inr revalidationResponse \<Rightarrow>
                  (case revalidatedPolicy E pol
                          (policyRequestFrom urlString revalidationRequest)
                          (policyResponseFrom revalidationResponse) of
                     (rvPolicy, modified) \<Rightarrow>
                       (case (if modified then parseBody E revalidationResponse
                              else Inr storedBody) of
                          Inl e \<Rightarrow> (Inl e, w1)
                        | Inr pbody \<Rightarrow>
                            storeResponseAndReturnClone E urlString
                              (responseFromPolicy E (p_url rvPolicy) rvPolicy)
                              pbody requestOpts rvPolicy key (cacheOptionsOf cache) w1))))"

text \<open>
  \<^verbatim>\<open>HTTPCache.fetch\<close>. The URL is given as its string, \<^verbatim>\<open>url.toString()\<close>; the default of
  \<^verbatim>\<open>requestOpts\<close> is the record of unset fields.
\<close>

definition fetch ::
  "('x, 'obj, 'j, 's) env \<Rightarrow> string \<Rightarrow> RequestOptions \<Rightarrow> CacheArg option
     \<Rightarrow> ('obj, 'j, 's) world
     \<Rightarrow> (error + ('obj, 'j) ResponseWithCacheWritePromise) \<times> ('obj, 'j, 's) world" where
  "fetch E urlString requestOpts0 cache w =
     (let requestOpts = requestOptsWithMethod requestOpts0;
          key = cacheKeyFor cache urlString
      in if reqMethod requestOpts = Some ''HEAD''
         then (case callHttpFetch E urlString requestOpts w of
                 (r, w1) \<Rightarrow>
                   (case r of
                      Inl e \<Rightarrow> (Inl e, w1)
                    | Inr resp \<Rightarrow>
                        (Inr \<lparr>response = resp, parsedBody = TextBody [],
                              responseFromCache = Some False, cacheWritePromise = None\<rparr>, w1)))
         else
           (case lookup E requestOpts key w of
              (r, w1) \<Rightarrow>
                (case r of
                   Inl e \<Rightarrow> (Inl e, w1)
                 | Inr None \<Rightarrow> fetchMiss E urlString requestOpts cache key w1
                 | Inr (Some entry) \<Rightarrow>
                     (case fromObject E (policy entry) of
                        Inl e \<Rightarrow> (Inl e, w1)
                      | Inr policyFromObject \<Rightarrow>
                          (let urlFromPolicy = p_url policyFromObject;
                               pol = policyFromObject\<lparr>p_url := None\<rparr>
                           in if isFresh E pol (ttlOverride entry)
                                   (policyRequestFrom urlString requestOpts)
                              then (Inr \<lparr>response = responseFromPolicy E urlFromPolicy pol,
                                         parsedBody = body entry,
                                         responseFromCache = Some True,
                                         cacheWritePromise = None\<rparr>, w1)
                              else fetchRevalidate E urlString requestOpts cache key pol
                                     (body entry) w1)))))"

section \<open>The paths of a call\<close>

text \<open>
  The conditions under which \<^const>\<open>fetch\<close> takes one of its paths, read off its branches.
  A fresh hit: the method is not \<^verbatim>\<open>HEAD\<close>, the lookup gives an entry, its policy is
  deserialised and the freshness test holds.
\<close>

definition freshHit ::
  "('x, 'obj, 'j, 's) env \<Rightarrow> string \<Rightarrow> RequestOptions \<Rightarrow> CacheArg option
     \<Rightarrow> ('obj, 'j, 's) world \<Rightarrow> bool" where
  "freshHit E urlString requestOpts0 cache w =
     (let requestOpts = requestOptsWithMethod requestOpts0 in
      reqMethod requestOpts \<noteq> Some ''HEAD'' \<and>
      (case fst (lookup E requestOpts (cacheKeyFor cache urlString) w) of
         Inl err \<Rightarrow> False
       | Inr None \<Rightarrow> False
       | Inr (Some entry) \<Rightarrow>
           (case fromObject E (policy entry) of
              Inl err \<Rightarrow> False
            | Inr p \<Rightarrow>
                isFresh E (p\<lparr>p_url := None\<rparr>) (ttlOverride entry)
                  (policyRequestFrom urlString requestOpts))))"

text \<open>
  A stale hit on the entry \<open>entry\<close>, whose policy is deserialised to \<open>p\<close>: the method is not
  \<^verbatim>\<open>HEAD\<close>, the lookup gives \<open>entry\<close> and the freshness test fails.
\<close>

definition staleHit ::
  "('x, 'obj, 'j, 's) env \<Rightarrow> string \<Rightarrow> RequestOptions \<Rightarrow> CacheArg option
     \<Rightarrow> ('obj, 'j, 's) world \<Rightarrow> ('obj, 'j) CacheItem \<Rightarrow> 'x CachePolicy \<Rightarrow> bool" where
  "staleHit E urlString requestOpts0 cache w entry p =
     (let requestOpts = requestOptsWithMethod requestOpts0 in
      reqMethod requestOpts \<noteq> Some ''HEAD'' \<and>
      fst (lookup E requestOpts (cacheKeyFor cache urlString) w) = Inr (Some entry) \<and>
      fromObject E (policy entry) = Inr p \<and>
      \<not> isFresh E (p\<lparr>p_url := None\<rparr>) (ttlOverride entry)
          (policyRequestFrom urlString requestOpts))"

text \<open>
  A revalidation that the evaluator reports unmodified: a stale hit on \<open>entry\<close>, the transport
  answers the revalidation request, \<^verbatim>\<open>revalidatedPolicy\<close> gives \<^verbatim>\<open>modified: false\<close>, and
  the \<^verbatim>\<open>cacheOptions\<close> function, if there is one, does not throw.
\<close>

definition revalidatesUnmodified ::
  "('x, 'obj, 'j, 's) env \<Rightarrow> string \<Rightarrow> RequestOptions \<Rightarrow> CacheArg option
     \<Rightarrow> ('obj, 'j, 's) world \<Rightarrow> ('obj, 'j) CacheItem \<Rightarrow> bool" where
  "revalidatesUnmodified E urlString requestOpts0 cache w entry =
     (let requestOpts = requestOptsWithMethod requestOpts0 in
      case fromObject E (policy entry) of
        Inl err \<Rightarrow> False
      | Inr p \<Rightarrow>
          staleHit E urlString requestOpts0 cache w entry p \<and>
          (let pol = p\<lparr>p_url := None\<rparr>;
               revalidationRequest = revalidationRequestFor E urlString requestOpts pol
           in case httpFetch E urlString revalidationRequest of
                Inl err \<Rightarrow> False
              | Inr revalidationResponse \<Rightarrow>
                  (case revalidatedPolicy E pol
                          (policyRequestFrom urlString revalidationRequest)
                          (policyResponseFrom revalidationResponse) of
                     (rvPolicy, modified) \<Rightarrow>
                       \<not> modified \<and>
                       (case resolveCacheOptions (cacheOptionsOf cache) urlString
                               (responseFromPolicy E (p_url rvPolicy) rvPolicy) requestOpts of
                          Inl err \<Rightarrow> False
                        | Inr copts \<Rightarrow> True))))"

text \<open>
  The entry under the key after a call that found \<open>entry\<close> there: the entry of the write
  the call started, or \<open>entry\<close> still when it started none.
\<close>

definition entryAfter ::
  "('x, 'obj, 'j, 's) env \<Rightarrow> string \<Rightarrow> RequestOptions \<Rightarrow> CacheArg option
     \<Rightarrow> ('obj, 'j, 's) world \<Rightarrow> ('obj, 'j) CacheItem \<Rightarrow> ('obj, 'j) CacheItem" where
  "entryAfter E urlString requestOpts0 cache w entry =
     (case fst (fetch E urlString requestOpts0 cache w) of
        Inl err \<Rightarrow> entry
      | Inr r \<Rightarrow> (case cacheWritePromise r of None \<Rightarrow> entry | Some wr \<Rightarrow> w_entry wr))"

text \<open>
  A run of calls, each with its own environment and world, that starts on \<open>entry\<close>: every
  call is a revalidation reported unmodified, of the entry the calls before it left.
\<close>

type_synonym ('x, 'obj, 'j, 's) fetchCall =
  "('x, 'obj, 'j, 's) env \<times> string \<times> RequestOptions \<times> CacheArg option \<times> ('obj, 'j, 's) world"

fun unmodifiedRevalidations ::
  "('obj, 'j) CacheItem \<Rightarrow> ('x, 'obj, 'j, 's) fetchCall list \<Rightarrow> bool" where
  "unmodifiedRevalidations entry [] = True"
| "unmodifiedRevalidations entry ((E, urlString, requestOpts0, cache, w) # cs) =
     (revalidatesUnmodified E urlString requestOpts0 cache w entry \<and>
      unmodifiedRevalidations (entryAfter E urlString requestOpts0 cache w entry) cs)"

text \<open>The body each call of a run serves, or the error it fails with.\<close>

definition servedBody :: "('x, 'obj, 'j, 's) fetchCall \<Rightarrow> error + 'j parsed" where
  "servedBody c =
     (case c of (E, urlString, requestOpts0, cache, w) \<Rightarrow>
        map_sum id parsedBody (fst (fetch E urlString requestOpts0 cache w)))"

section \<open>An environment for examples\<close>

text \<open>
  A store in memory that keeps the last entry set under a key, policies that are serialised
  as they are, and an evaluator with fixed answers: \<open>currentAge\<close>, \<open>fresh\<close>, \<open>canStore\<close> and
  \<open>msToLive\<close>. As the evaluator library does, its revalidation headers are the headers of the
  request without \<^verbatim>\<open>if-range\<close>, which the library does not support, with the validator of
  the stored response added, and a response with status 304 leaves the policy and reports
  unmodified.
\<close>

type_synonym exPolicy = "CachePolicyHeaders CachePolicy"

type_synonym exStore = "(string \<times> (exPolicy, string) CacheItem) list"

definition exampleEnv ::
  "(string \<Rightarrow> RequestOptions \<Rightarrow> error + Response) \<Rightarrow> number \<Rightarrow> bool \<Rightarrow> bool \<Rightarrow> number
     \<Rightarrow> (CachePolicyHeaders, exPolicy, string, exStore) env" where
  "exampleEnv transport currentAge fresh canStore msToLive =
     \<lparr>httpFetch = transport,
      parseBody = parseResponseBody Some,
      kv_get = (\<lambda>k s. (Inr (map_of s k), s)),
      kv_set = (\<lambda>k v opts s. AList.update k v s),
      newCachePolicy = (\<lambda>preq presp opts.
         \<lparr>p_url = Some (pr_url preq), p_status = ps_status presp, p_rest = ps_headers presp\<rparr>),
      fromObject = Inr,
      toObject = (\<lambda>p. p),
      age = (\<lambda>p. currentAge),
      satisfiesWithoutRevalidation = (\<lambda>p preq. fresh),
      responseHeaders = p_rest,
      revalidationHeaders = (\<lambda>p preq.
         map (\<lambda>(name, v). (name, HString v))
           (filter (\<lambda>(name, v). name \<noteq> ''if-range'') (pr_headers preq)) @
         (case map_of (p_rest p) ''etag'' of
            None \<Rightarrow> []
          | Some v \<Rightarrow> [(''if-none-match'', v)])),
      revalidatedPolicy = (\<lambda>p preq presp.
         if ps_status presp = 304 then (p\<lparr>p_url := Some (pr_url preq)\<rparr>, False)
         else (\<lparr>p_url = Some (pr_url preq), p_status = ps_status presp,
                p_rest = ps_headers presp\<rparr>, True)),
      storable = (\<lambda>p. canStore),
      timeToLive = (\<lambda>p. msToLive)\<rparr>"

text \<open>A transport that answers every request with one response.\<close>

definition origin ::
  "int \<Rightarrow> Headers \<Rightarrow> string \<Rightarrow> string \<Rightarrow> RequestOptions \<Rightarrow> error + Response" where
  "origin st hs b u request =
     Inr \<lparr>url = Some u, status = st, headers = hs, hasRaw = True, bodyText = b\<rparr>"

definition emptyWorld :: "(exPolicy, string, exStore) world" where
  "emptyWorld = \<lparr>store = [], calls = []\<rparr>"

definition getRequest :: RequestOptions where
  "getRequest = \<lparr>reqMethod = None, reqHeaders = None, skipCache = None\<rparr>"

text \<open>An entry for \<^verbatim>\<open>http://a/x\<close> with an entity tag, and a world that holds it.\<close>

definition storedEntry :: "number option \<Rightarrow> (exPolicy, string) CacheItem" where
  "storedEntry tOverride =
     \<lparr>policy = \<lparr>p_url = Some ''http://a/x'', p_status = 200,
                 p_rest = [(''etag'', HString ''v1'')]\<rparr>,
      ttlOverride = tOverride,
      body = TextBody ''hello''\<rparr>"

definition storedWorld :: "number option \<Rightarrow> (exPolicy, string, exStore) world" where
  "storedWorld tOverride =
     \<lparr>store = [(''httpcache:http://a/x'', storedEntry tOverride)], calls = []\<rparr>"

section \<open>Unfolding the model\<close>

lemmas example_defs = exampleEnv_def origin_def emptyWorld_def getRequest_def storedEntry_def
  storedWorld_def

lemmas model_defs = fetch_def fetchMiss_def fetchRevalidate_def storeResponseAndReturnClone_def
  writeToCache_def resolveCacheOptions_def isFresh_def
  callHttpFetch_def keyValueCache_get_def keyValueCache_set_def canBeRevalidated_def
  policyRequestFrom_def policyResponseFrom_def nodeFetchHeadersToCachePolicyHeaders_def
  cachePolicyHeadersToFetcherHeadersInit_def NodeFetchResponse_def headers_of_list_def
  headers_append_def headers_find_def headers_has_def headers_get_def headers_entries_def
  Object_fromEntries_def toLowerCase_def
  toLowerCase_char_def parseResponseBody_def requestOptsWithMethod_def cacheKeyFor_def
  cacheOptionsOf_def lookup_def responseFromPolicy_def revalidationRequestFor_def

lemmas path_defs = revalidatesUnmodified_def staleHit_def freshHit_def entryAfter_def
  servedBody_def

section \<open>The body parser: what decides between JSON and text\<close>

text \<open>
  Claim C9, as amended. The parser gives the text of the body when the status is 204 or
  \<^verbatim>\<open>Content-Length\<close> is \<^verbatim>\<open>0\<close>, whatever the content type; otherwise it parses the body as
  JSON when the content type starts with \<^verbatim>\<open>application/json\<close> or ends with \<^verbatim>\<open>+json\<close>,
  and gives the text in every other case.
\<close>

theorem parseResponseBody_decision:
  "parseResponseBody json r =
     (if status r = 204 \<or> headers_get (headers r) ''Content-Length'' = Some ''0''
      then Inr (TextBody (bodyText r))
      else if (case headers_get (headers r) ''Content-Type'' of
                 None \<Rightarrow> False
               | Some ct \<Rightarrow> prefix ''application/json'' ct \<or> suffix ''+json'' ct)
      then (case json (bodyText r) of None \<Rightarrow> Inl ParseError | Some j \<Rightarrow> Inr (JsonBody j))
      else Inr (TextBody (bodyText r)))"
  by (auto simp: parseResponseBody_def Let_def split: option.splits)

theorem parseResponseBody_decision_witness:
  "parseResponseBody Some
     \<lparr>url = None, status = 204, headers = [(''content-type'', [''application/json''])],
      hasRaw = True, bodyText = ''{}''\<rparr> = Inr (TextBody ''{}'') \<and>
   parseResponseBody Some
     \<lparr>url = None, status = 200, headers = [(''content-type'', [''application/hal+json''])],
      hasRaw = True, bodyText = ''{}''\<rparr> = Inr (JsonBody ''{}'') \<and>
   parseResponseBody Some
     \<lparr>url = None, status = 200, headers = [(''content-type'', [''text/plain''])],
      hasRaw = True, bodyText = ''{}''\<rparr> = Inr (TextBody ''{}'')"
  by (simp add: parseResponseBody_decision headers_get_def headers_find_def toLowerCase_def
        toLowerCase_char_def
        suffix_to_prefix)

text \<open>
  Claim C9 as stated fails: a content type that is not exactly \<^verbatim>\<open>application/json\<close> and
  does not end with \<^verbatim>\<open>+json\<close>, here with a charset parameter, is parsed as JSON.
\<close>

theorem parseResponseBody_exact_json_counterexample:
  "parseResponseBody Some
     \<lparr>url = None, status = 200,
      headers = [(''content-type'', [''application/json; charset=utf-8''])],
      hasRaw = True, bodyText = ''{}''\<rparr> = Inr (JsonBody ''{}'') \<and>
   ''application/json; charset=utf-8'' \<noteq> ''application/json'' \<and>
   \<not> suffix ''+json'' ''application/json; charset=utf-8''"
  by (simp add: parseResponseBody_def headers_get_def headers_find_def toLowerCase_def
        toLowerCase_char_def
        suffix_to_prefix)

section \<open>The storage decision and the paths of fetch, as equations\<close>

lemma requestOptsWithMethod_id:
  "reqMethod req = Some m \<Longrightarrow> requestOptsWithMethod req = req"
  by (cases req) (simp add: requestOptsWithMethod_def)

lemma method_requestOptsWithMethod:
  "reqMethod (requestOptsWithMethod req) = Some (case reqMethod req of None \<Rightarrow> ''GET'' | Some m \<Rightarrow> m)"
  by (simp add: requestOptsWithMethod_def)

lemma skipCache_requestOptsWithMethod [simp]:
  "skipCache (requestOptsWithMethod req) = skipCache req"
  by (simp add: requestOptsWithMethod_def)

lemma fetch_HEAD:
  assumes "reqMethod req = Some ''HEAD''"
  shows "fetch E u req cache w =
           (case httpFetch E u req of
              Inl e \<Rightarrow> Inl e
            | Inr resp \<Rightarrow> Inr \<lparr>response = resp, parsedBody = TextBody [],
                              responseFromCache = Some False, cacheWritePromise = None\<rparr>,
            w\<lparr>calls := calls w @ [HttpFetch u req]\<rparr>)"
  using assms
  by (simp add: fetch_def requestOptsWithMethod_id callHttpFetch_def split: sum.splits)

lemma storeResponse_Inl:
  "resolveCacheOptions copts u resp req = Inl e \<Longrightarrow>
     storeResponseAndReturnClone E u resp b req pol key copts w = (Inl e, w)"
  by (simp add: storeResponseAndReturnClone_def)

lemma storeResponse_Inr:
  assumes "resolveCacheOptions copts u resp req = Inr co"
  shows "storeResponseAndReturnClone E u resp b req pol key copts w =
     (let tOverride = (case co of None \<Rightarrow> None | Some c \<Rightarrow> ttl c);
          t = (case tOverride of
                 None \<Rightarrow> Math_round (num_div1000 (timeToLive E pol))
               | Some t' \<Rightarrow> t');
          t2 = (if canBeRevalidated resp then num_times t (Num 2) else t);
          entry = \<lparr>policy = toObject E pol, ttlOverride = tOverride, body = b\<rparr>;
          opts = (case co of None \<Rightarrow> \<lparr>ttl = Some t2\<rparr> | Some c \<Rightarrow> c\<lparr>ttl := Some t2\<rparr>)
      in if ((truthy tOverride \<and> 200 \<le> p_status pol \<and> p_status pol \<le> 299) \<or>
             (reqMethod req = Some ''GET'' \<and> storable E pol)) \<and> \<not> num_le t (Num 0)
         then (Inr \<lparr>response = resp, parsedBody = b, responseFromCache = None,
                    cacheWritePromise =
                      Some \<lparr>w_key = ''httpcache:'' @ key, w_entry = entry, w_options = opts\<rparr>\<rparr>,
               \<lparr>store = kv_set E (''httpcache:'' @ key) entry opts (store w),
                calls = calls w @ [KvSet (''httpcache:'' @ key) entry opts]\<rparr>)
         else (Inr \<lparr>response = resp, parsedBody = b, responseFromCache = None,
                    cacheWritePromise = None\<rparr>, w))"
  using assms
  by (simp add: storeResponseAndReturnClone_def writeToCache_def keyValueCache_set_def Let_def)

lemma storeResponse_result:
  assumes "storeResponseAndReturnClone E u resp b req pol key copts w = (Inr r, w')"
  shows "response r = resp \<and> parsedBody r = b \<and> responseFromCache r = None \<and>
         (case cacheWritePromise r of None \<Rightarrow> True | Some wr \<Rightarrow> body (w_entry wr) = b)"
proof (cases "resolveCacheOptions copts u resp req")
  case (Inl e)
  with assms show ?thesis by (simp add: storeResponse_Inl)
next
  case (Inr co)
  with assms show ?thesis
    by (auto simp: storeResponse_Inr Let_def split: if_splits)
qed

lemma method_HEAD_iff:
  "reqMethod (requestOptsWithMethod req) = Some ''HEAD'' \<longleftrightarrow> reqMethod req = Some ''HEAD''"
  by (simp add: requestOptsWithMethod_def split: option.splits)

lemma fetch_miss:
  assumes "reqMethod req \<noteq> Some ''HEAD''"
    and "lookup E (requestOptsWithMethod req) (cacheKeyFor cache u) w = (Inr None, w1)"
  shows "fetch E u req cache w =
           fetchMiss E u (requestOptsWithMethod req) cache (cacheKeyFor cache u) w1"
  using assms by (simp add: fetch_def method_HEAD_iff)

lemma fetch_hit:
  assumes "reqMethod req \<noteq> Some ''HEAD''"
    and "lookup E (requestOptsWithMethod req) (cacheKeyFor cache u) w = (Inr (Some entry), w1)"
    and "fromObject E (policy entry) = Inr p"
  shows "fetch E u req cache w =
           (if isFresh E (p\<lparr>p_url := None\<rparr>) (ttlOverride entry)
                 (policyRequestFrom u (requestOptsWithMethod req))
            then (Inr \<lparr>response = responseFromPolicy E (p_url p) (p\<lparr>p_url := None\<rparr>),
                       parsedBody = body entry, responseFromCache = Some True,
                       cacheWritePromise = None\<rparr>, w1)
            else fetchRevalidate E u (requestOptsWithMethod req) cache (cacheKeyFor cache u)
                   (p\<lparr>p_url := None\<rparr>) (body entry) w1)"
  using assms by (simp add: fetch_def method_HEAD_iff Let_def)

lemma lookup_skipCache:
  "skipCache req = Some True \<Longrightarrow> lookup E (requestOptsWithMethod req) key w = (Inr None, w)"
  by (simp add: lookup_def)

lemma lookup_world:
  "snd (lookup E req key w) = w \<or>
   (\<exists>s'. snd (lookup E req key w) = \<lparr>store = s', calls = calls w @ [KvGet (''httpcache:'' @ key)]\<rparr>)"
  by (auto simp: lookup_def keyValueCache_get_def split: prod.splits)

lemma fetchMiss_result:
  assumes "fetchMiss E u req cache key w = (Inr r, w')"
  shows "responseFromCache r = None"
  using assms
  by (auto simp: fetchMiss_def callHttpFetch_def Let_def split: sum.splits
        dest: storeResponse_result)

lemma fetchRevalidate_result:
  assumes "fetchRevalidate E u req cache key pol b w = (Inr r, w')"
  shows "responseFromCache r = None"
  using assms
  by (auto simp: fetchRevalidate_def callHttpFetch_def Let_def split: sum.splits prod.splits if_splits
        dest: storeResponse_result)

lemma storeResponse_calls:
  "\<exists>cs. calls (snd (storeResponseAndReturnClone E u resp b req pol key copts w)) = calls w @ cs \<and>
        (\<forall>k. KvGet k \<notin> set cs)"
proof (cases "resolveCacheOptions copts u resp req")
  case (Inl e)
  then show ?thesis by (simp add: storeResponse_Inl)
next
  case (Inr co)
  then show ?thesis by (simp add: storeResponse_Inr Let_def)
qed

lemma fetchMiss_calls:
  "\<exists>cs. calls (snd (fetchMiss E u req cache key w)) = calls w @ HttpFetch u req # cs \<and>
        (\<forall>k. KvGet k \<notin> set cs)"
proof (cases "httpFetch E u req")
  case (Inl e)
  then show ?thesis by (simp add: fetchMiss_def callHttpFetch_def)
next
  case (Inr resp)
  show ?thesis
  proof (cases "parseBody E resp")
    case (Inl e)
    with Inr show ?thesis by (simp add: fetchMiss_def callHttpFetch_def)
  next
    case b: (Inr b)
    obtain cs where
      "calls (snd (storeResponseAndReturnClone E u resp b req
                     (newCachePolicy E (policyRequestFrom u req) (policyResponseFrom resp)
                        (case cache of None \<Rightarrow> None
                         | Some c \<Rightarrow> httpCacheSemanticsCachePolicyOptions c))
                     key (cacheOptionsOf cache) (w\<lparr>calls := calls w @ [HttpFetch u req]\<rparr>))) =
         calls (w\<lparr>calls := calls w @ [HttpFetch u req]\<rparr>) @ cs"
      and "\<forall>k. KvGet k \<notin> set cs"
      using storeResponse_calls by blast
    with Inr b show ?thesis by (simp add: fetchMiss_def callHttpFetch_def)
  qed
qed

section \<open>HEAD requests\<close>

text \<open>
  Claim C7. A call whose method is \<^verbatim>\<open>HEAD\<close> leaves the store as it was, makes one call
  only, the live fetch, and gives what the transport gives: its error, or a result with
  \<^verbatim>\<open>responseFromCache: false\<close>. The \<^verbatim>\<open>get\<close> and \<^verbatim>\<open>set\<close> of the store are not used: any
  other pair of them gives the same outcome.
\<close>

theorem fetch_HEAD_bypasses_store:
  assumes "reqMethod req = Some ''HEAD''"
  shows "store (snd (fetch E u req cache w)) = store w \<and>
         calls (snd (fetch E u req cache w)) = calls w @ [HttpFetch u req] \<and>
         fst (fetch E u req cache w) =
           (case httpFetch E u req of
              Inl e \<Rightarrow> Inl e
            | Inr resp \<Rightarrow> Inr \<lparr>response = resp, parsedBody = TextBody [],
                              responseFromCache = Some False, cacheWritePromise = None\<rparr>) \<and>
         fetch (E\<lparr>kv_get := g, kv_set := st\<rparr>) u req cache w = fetch E u req cache w"
  using assms by (simp add: fetch_HEAD)

theorem fetch_HEAD_bypasses_store_witness:
  "store (snd (fetch (exampleEnv (origin 200 [] ''payload'') (Num 0) True True (Num 60000)) ''http://a/x''
            \<lparr>reqMethod = Some ''HEAD'', reqHeaders = None, skipCache = None\<rparr> None
            (storedWorld None))) = store (storedWorld None) \<and>
   calls (snd (fetch (exampleEnv (origin 200 [] ''payload'') (Num 0) True True (Num 60000)) ''http://a/x''
            \<lparr>reqMethod = Some ''HEAD'', reqHeaders = None, skipCache = None\<rparr> None
            (storedWorld None))) =
     [HttpFetch ''http://a/x'' \<lparr>reqMethod = Some ''HEAD'', reqHeaders = None, skipCache = None\<rparr>] \<and>
   map_sum id responseFromCache
     (fst (fetch (exampleEnv (origin 200 [] ''payload'') (Num 0) True True (Num 60000)) ''http://a/x''
            \<lparr>reqMethod = Some ''HEAD'', reqHeaders = None, skipCache = None\<rparr> None
            (storedWorld None))) = Inr (Some False)"
  using fetch_HEAD_bypasses_store
          [of "\<lparr>reqMethod = Some ''HEAD'', reqHeaders = None, skipCache = None\<rparr>"
              "exampleEnv (origin 200 [] ''payload'') (Num 0) True True (Num 60000)" "''http://a/x''" None
              "storedWorld None"]
  by (simp add: example_defs)

text \<open>
  Claim C10. When the method is \<^verbatim>\<open>HEAD\<close> and the transport answers, the result carries the
  response of the transport and the empty string as its parsed body, whatever body the
  response has and whatever the parser \<open>f\<close> would do with it.
\<close>

theorem fetch_HEAD_body_empty:
  assumes "reqMethod req = Some ''HEAD''" and "httpFetch E u req = Inr resp"
  shows "fst (fetch (E\<lparr>parseBody := f\<rparr>) u req cache w) =
           Inr \<lparr>response = resp, parsedBody = TextBody [],
                responseFromCache = Some False, cacheWritePromise = None\<rparr>"
  using assms by (simp add: fetch_HEAD)

theorem fetch_HEAD_body_empty_witness:
  "map_sum id parsedBody
     (fst (fetch (exampleEnv (origin 200 [] ''payload'') (Num 0) True True (Num 60000)
                    \<lparr>parseBody := parseResponseBody Some\<rparr>) ''http://a/x''
            \<lparr>reqMethod = Some ''HEAD'', reqHeaders = None, skipCache = None\<rparr> None
            (storedWorld None))) = Inr (TextBody [])"
  using fetch_HEAD_body_empty
          [of "\<lparr>reqMethod = Some ''HEAD'', reqHeaders = None, skipCache = None\<rparr>"
              "exampleEnv (origin 200 [] ''payload'') (Num 0) True True (Num 60000)" "''http://a/x''"
              "\<lparr>url = Some ''http://a/x'', status = 200, headers = [], hasRaw = True,
                bodyText = ''payload''\<rparr>" "parseResponseBody Some" None "storedWorld None"]
  by (simp add: example_defs)

section \<open>Skipping the lookup\<close>

text \<open>
  Claim C8. With \<^verbatim>\<open>skipCache: true\<close> and a method other than \<^verbatim>\<open>HEAD\<close>, the calls made are
  the live fetch and after it no \<^verbatim>\<open>get\<close> of the store; when the transport answers and the
  body is parsed, the call is the storage decision on that response, which may start a
  write (the example after the theorem runs one that does).
\<close>

theorem fetch_skipCache_reads_nothing_but_stores:
  assumes "skipCache req = Some True" and "reqMethod req \<noteq> Some ''HEAD''"
  shows "(\<exists>cs. calls (snd (fetch E u req cache w)) =
                 calls w @ HttpFetch u (requestOptsWithMethod req) # cs \<and>
               (\<forall>k. KvGet k \<notin> set cs)) \<and>
         (case httpFetch E u (requestOptsWithMethod req) of
            Inl e \<Rightarrow> fst (fetch E u req cache w) = Inl e
          | Inr resp \<Rightarrow>
              (case parseBody E resp of
                 Inl e \<Rightarrow> fst (fetch E u req cache w) = Inl e
               | Inr b \<Rightarrow>
                   fetch E u req cache w =
                     storeResponseAndReturnClone E u resp b (requestOptsWithMethod req)
                       (newCachePolicy E (policyRequestFrom u (requestOptsWithMethod req))
                          (policyResponseFrom resp)
                          (case cache of None \<Rightarrow> None
                           | Some c \<Rightarrow> httpCacheSemanticsCachePolicyOptions c))
                       (cacheKeyFor cache u) (cacheOptionsOf cache)
                       (w\<lparr>calls := calls w @ [HttpFetch u (requestOptsWithMethod req)]\<rparr>)))"
proof -
  have eq: "fetch E u req cache w =
        fetchMiss E u (requestOptsWithMethod req) cache (cacheKeyFor cache u) w"
    using assms by (simp add: fetch_miss lookup_skipCache)
  show ?thesis
    unfolding eq using fetchMiss_calls [of E u "requestOptsWithMethod req" cache "cacheKeyFor cache u" w]
    by (simp add: fetchMiss_def callHttpFetch_def split: sum.splits)
qed

theorem fetch_skipCache_reads_nothing_but_stores_witness:
  "fetch (exampleEnv (origin 200 [] ''fresh copy'') (Num 0) True True (Num 60000)) ''http://a/x''
      \<lparr>reqMethod = None, reqHeaders = None, skipCache = Some True\<rparr> None (storedWorld None) =
     (Inr \<lparr>response = \<lparr>url = Some ''http://a/x'', status = 200, headers = [], hasRaw = True,
                         bodyText = ''fresh copy''\<rparr>,
           parsedBody = TextBody ''fresh copy'', responseFromCache = None,
           cacheWritePromise =
             Some \<lparr>w_key = ''httpcache:http://a/x'',
                   w_entry = \<lparr>policy = \<lparr>p_url = Some ''http://a/x'', p_status = 200, p_rest = []\<rparr>,
                              ttlOverride = None, body = TextBody ''fresh copy''\<rparr>,
                   w_options = \<lparr>ttl = Some (Num 60)\<rparr>\<rparr>\<rparr>,
      \<lparr>store = [(''httpcache:http://a/x'',
                 \<lparr>policy = \<lparr>p_url = Some ''http://a/x'', p_status = 200, p_rest = []\<rparr>,
                  ttlOverride = None, body = TextBody ''fresh copy''\<rparr>)],
       calls = [HttpFetch ''http://a/x'' \<lparr>reqMethod = Some ''GET'', reqHeaders = None,
                                         skipCache = Some True\<rparr>,
                KvSet ''httpcache:http://a/x''
                  \<lparr>policy = \<lparr>p_url = Some ''http://a/x'', p_status = 200, p_rest = []\<rparr>,
                   ttlOverride = None, body = TextBody ''fresh copy''\<rparr>
                  \<lparr>ttl = Some (Num 60)\<rparr>]\<rparr>)"
  using fetch_skipCache_reads_nothing_but_stores
          [of "\<lparr>reqMethod = None, reqHeaders = None, skipCache = Some True\<rparr>"
              "exampleEnv (origin 200 [] ''fresh copy'') (Num 0) True True (Num 60000)" "''http://a/x''" None
              "storedWorld None"]
  by (simp add: example_defs model_defs Let_def)

section \<open>More about the storage decision and the calls of a revalidation\<close>

lemma storeResponse_writes_iff:
  assumes "resolveCacheOptions copts u resp req = Inr co"
  shows "(\<exists>r w' wr. storeResponseAndReturnClone E u resp b req pol key copts w = (Inr r, w') \<and>
            cacheWritePromise r = Some wr) \<longleftrightarrow>
         ((truthy (case co of None \<Rightarrow> None | Some c \<Rightarrow> ttl c) \<and>
             200 \<le> p_status pol \<and> p_status pol \<le> 299) \<or>
          (reqMethod req = Some ''GET'' \<and> storable E pol)) \<and>
         \<not> num_le (case (case co of None \<Rightarrow> None | Some c \<Rightarrow> ttl c) of
                     None \<Rightarrow> Math_round (num_div1000 (timeToLive E pol))
                   | Some t \<Rightarrow> t) (Num 0)"
  using assms by (simp add: storeResponse_Inr Let_def)

lemma written_ttlOverride_not_le_zero:
  assumes "storeResponseAndReturnClone E u resp b req pol key copts w = (Inr r, w')"
    and "cacheWritePromise r = Some wr"
    and "ttlOverride (w_entry wr) = Some t"
  shows "\<not> num_le t (Num 0)"
proof (cases "resolveCacheOptions copts u resp req")
  case (Inl e)
  with assms show ?thesis by (simp add: storeResponse_Inl)
next
  case (Inr co)
  with assms show ?thesis
    by (auto simp: storeResponse_Inr Let_def split: if_splits option.splits)
qed

lemma storeResponse_returns:
  assumes "resolveCacheOptions copts u resp req = Inr co"
  shows "\<exists>r w'. storeResponseAndReturnClone E u resp b req pol key copts w = (Inr r, w') \<and>
           response r = resp \<and> parsedBody r = b \<and> responseFromCache r = None \<and>
           (case cacheWritePromise r of None \<Rightarrow> True | Some wr \<Rightarrow> body (w_entry wr) = b)"
  using assms by (simp add: storeResponse_Inr Let_def)

lemma revalidatesUnmodified_serves_stored:
  assumes "revalidatesUnmodified E u req cache w entry"
  shows "\<exists>r w'. fetch E u req cache w = (Inr r, w') \<and> parsedBody r = body entry \<and>
           (case cacheWritePromise r of None \<Rightarrow> True | Some wr \<Rightarrow> body (w_entry wr) = body entry)"
proof -
  let ?req = "requestOptsWithMethod req"
  let ?key = "cacheKeyFor cache u"
  from assms obtain p where p: "fromObject E (policy entry) = Inr p"
    by (auto simp: revalidatesUnmodified_def Let_def split: sum.splits)
  let ?pol = "p\<lparr>p_url := None\<rparr>"
  let ?rq = "revalidationRequestFor E u ?req ?pol"
  from assms p have stale: "staleHit E u req cache w entry p"
    by (simp add: revalidatesUnmodified_def Let_def)
  from assms p obtain resp where resp: "httpFetch E u ?rq = Inr resp"
    by (auto simp: revalidatesUnmodified_def Let_def split: sum.splits)
  obtain rvPolicy modified where
    rv: "revalidatedPolicy E ?pol (policyRequestFrom u ?rq) (policyResponseFrom resp) =
           (rvPolicy, modified)"
    by (cases "revalidatedPolicy E ?pol (policyRequestFrom u ?rq) (policyResponseFrom resp)")
  from assms p resp rv have unmod: "\<not> modified"
    by (simp add: revalidatesUnmodified_def Let_def)
  from assms p resp rv obtain co where
    co: "resolveCacheOptions (cacheOptionsOf cache) u
           (responseFromPolicy E (p_url rvPolicy) rvPolicy) ?req = Inr co"
    by (auto simp: revalidatesUnmodified_def Let_def split: sum.splits)
  obtain w1 where l: "lookup E ?req ?key w = (Inr (Some entry), w1)"
    using stale by (cases "lookup E ?req ?key w") (simp add: staleHit_def Let_def)
  have m: "reqMethod req \<noteq> Some ''HEAD''"
    using stale by (simp add: staleHit_def Let_def method_HEAD_iff)
  have nf: "\<not> isFresh E ?pol (ttlOverride entry) (policyRequestFrom u ?req)"
    using stale by (simp add: staleHit_def Let_def)
  have "fetch E u req cache w = fetchRevalidate E u ?req cache ?key ?pol (body entry) w1"
    using fetch_hit [OF m l p] nf by simp
  also have "\<dots> = storeResponseAndReturnClone E u (responseFromPolicy E (p_url rvPolicy) rvPolicy)
                      (body entry) ?req rvPolicy ?key (cacheOptionsOf cache)
                      (w1\<lparr>calls := calls w1 @ [HttpFetch u ?rq]\<rparr>)"
    using resp rv unmod by (simp add: fetchRevalidate_def callHttpFetch_def Let_def)
  finally show ?thesis
    using storeResponse_returns [OF co, of E "body entry" rvPolicy ?key
            "w1\<lparr>calls := calls w1 @ [HttpFetch u ?rq]\<rparr>"]
    by auto
qed

lemma entryAfter_body:
  assumes "revalidatesUnmodified E u req cache w entry"
  shows "body (entryAfter E u req cache w entry) = body entry"
  using revalidatesUnmodified_serves_stored [OF assms]
  by (auto simp: entryAfter_def split: option.splits)

lemma fetch_lookup_error:
  assumes "reqMethod req \<noteq> Some ''HEAD''"
    and "lookup E (requestOptsWithMethod req) (cacheKeyFor cache u) w = (Inl e, w1)"
  shows "fetch E u req cache w = (Inl e, w1)"
  using assms by (simp add: fetch_def method_HEAD_iff)

lemma fetch_fromObject_error:
  assumes "reqMethod req \<noteq> Some ''HEAD''"
    and "lookup E (requestOptsWithMethod req) (cacheKeyFor cache u) w = (Inr (Some entry), w1)"
    and "fromObject E (policy entry) = Inl e"
  shows "fetch E u req cache w = (Inl e, w1)"
  using assms by (simp add: fetch_def method_HEAD_iff)

lemma storeResponse_satisfies_irrelevant:
  "storeResponseAndReturnClone (E\<lparr>satisfiesWithoutRevalidation := f\<rparr>) u resp b req pol key copts w =
   storeResponseAndReturnClone E u resp b req pol key copts w"
  by (simp add: storeResponseAndReturnClone_def writeToCache_def keyValueCache_set_def
        cong: sum.case_cong option.case_cong if_cong)

lemma fetchRevalidate_satisfies_irrelevant:
  "fetchRevalidate (E\<lparr>satisfiesWithoutRevalidation := f\<rparr>) u req cache key pol b w =
   fetchRevalidate E u req cache key pol b w"
  by (simp add: fetchRevalidate_def storeResponse_satisfies_irrelevant callHttpFetch_def
        revalidationRequestFor_def responseFromPolicy_def Let_def
        split: sum.splits prod.splits)

lemma lookup_satisfies_irrelevant:
  "lookup (E\<lparr>satisfiesWithoutRevalidation := f\<rparr>) req key w = lookup E req key w"
  by (simp add: lookup_def keyValueCache_get_def)

lemma isFresh_truthy:
  "truthy (Some t) \<Longrightarrow> isFresh E pol (Some t) preq = num_lt (age E pol) t"
  by (simp add: isFresh_def)

lemma isFresh_falsy:
  "\<not> truthy tOverride \<Longrightarrow>
     isFresh E pol tOverride preq = satisfiesWithoutRevalidation E pol preq"
  by (simp add: isFresh_def)

lemma headerRecordFrom_lookup:
  assumes "distinct (map fst hs)"
  shows "map_of (headerRecordFrom acc hs) name =
           (case Option.bind (map_of hs name) fetcherHeaderValue of
              None \<Rightarrow> map_of acc name
            | Some x \<Rightarrow> Some x)"
  using assms
proof (induction hs arbitrary: acc)
  case Nil
  then show ?case by simp
next
  case (Cons a hs)
  obtain n v where a: "a = (n, v)" by (cases a)
  from Cons.prems a have nn: "map_of hs n = None"
    by (simp add: map_of_eq_None_iff)
  from Cons.prems have d: "distinct (map fst hs)" by simp
  note IH = Cons.IH [OF d]
  show ?case
  proof (cases "name = n")
    case True
    have IH': "map_of (headerRecordFrom acc' hs) n = map_of acc' n" for acc'
      using IH [of acc'] nn True by simp
    from True show ?thesis
      by (cases v) (simp_all add: a IH' update_conv' fetcherHeaderValue_def)
  next
    case False
    then have upd: "map_of (AList.update n x acc) name = map_of acc name" for x
      by (simp add: update_conv')
    from False show ?thesis
      by (cases v) (simp_all add: a IH upd cong: option.case_cong)
  qed
qed

lemma storeResponse_no_fetch:
  "\<exists>cs. calls (snd (storeResponseAndReturnClone E u resp b req pol key copts w)) = calls w @ cs \<and>
        (\<forall>u' rq. HttpFetch u' rq \<notin> set cs)"
proof (cases "resolveCacheOptions copts u resp req")
  case (Inl e)
  then show ?thesis by (simp add: storeResponse_Inl)
next
  case (Inr co)
  then show ?thesis by (simp add: storeResponse_Inr Let_def)
qed

lemma fetchRevalidate_calls:
  "\<exists>cs. calls (snd (fetchRevalidate E u req cache key pol b w)) =
          calls w @ HttpFetch u (revalidationRequestFor E u req pol) # cs \<and>
        (\<forall>u' rq. HttpFetch u' rq \<notin> set cs)"
proof -
  let ?rq = "revalidationRequestFor E u req pol"
  let ?w1 = "w\<lparr>calls := calls w @ [HttpFetch u ?rq]\<rparr>"
  show ?thesis
  proof (cases "httpFetch E u ?rq")
    case (Inl e)
    then show ?thesis by (simp add: fetchRevalidate_def callHttpFetch_def)
  next
    case (Inr resp)
    obtain rvPolicy modified where
      rv: "revalidatedPolicy E pol (policyRequestFrom u ?rq) (policyResponseFrom resp) =
             (rvPolicy, modified)"
      by (cases "revalidatedPolicy E pol (policyRequestFrom u ?rq) (policyResponseFrom resp)")
    show ?thesis
    proof (cases "if modified then parseBody E resp else Inr b")
      case (Inl e)
      with Inr rv show ?thesis by (simp add: fetchRevalidate_def callHttpFetch_def)
    next
      case pb: (Inr pbody)
      obtain cs where
        "calls (snd (storeResponseAndReturnClone E u (responseFromPolicy E (p_url rvPolicy) rvPolicy)
                       pbody req rvPolicy key (cacheOptionsOf cache) ?w1)) = calls ?w1 @ cs"
        and "\<forall>u' rq. HttpFetch u' rq \<notin> set cs"
        using storeResponse_no_fetch by blast
      with Inr rv pb show ?thesis by (simp add: fetchRevalidate_def callHttpFetch_def)
    qed
  qed
qed

section \<open>The storage decision\<close>

text \<open>
  Claim C1 says that with a TTL override only a response with a status from 200 to 299 is
  written, as the comment above the test in \<^verbatim>\<open>storeResponseAndReturnClone\<close> does. The code
  writes more: a \<^verbatim>\<open>GET\<close> whose response the evaluator calls storable passes the second half
  of the test whether or not there is an override. Here a 404 answer to a \<^verbatim>\<open>GET\<close> with
  \<^verbatim>\<open>cacheOptions: {ttl: 30}\<close> is written, with the override in its entry.
\<close>

theorem ttl_override_stores_unsuccessful_GET:
  "fetch (exampleEnv (origin 404 [] ''not found'') (Num 0) False True (Num 60000)) ''http://a/x'' getRequest
     (Some \<lparr>cacheKey = None, cacheOptions = Some (Static \<lparr>ttl = Some (Num 30)\<rparr>),
            httpCacheSemanticsCachePolicyOptions = None\<rparr>) emptyWorld =
   (Inr \<lparr>response = \<lparr>url = Some ''http://a/x'', status = 404, headers = [], hasRaw = True,
                       bodyText = ''not found''\<rparr>,
         parsedBody = TextBody ''not found'', responseFromCache = None,
         cacheWritePromise =
           Some \<lparr>w_key = ''httpcache:http://a/x'',
                 w_entry = \<lparr>policy = \<lparr>p_url = Some ''http://a/x'', p_status = 404, p_rest = []\<rparr>,
                            ttlOverride = Some (Num 30), body = TextBody ''not found''\<rparr>,
                 w_options = \<lparr>ttl = Some (Num 30)\<rparr>\<rparr>\<rparr>,
    \<lparr>store = [(''httpcache:http://a/x'',
               \<lparr>policy = \<lparr>p_url = Some ''http://a/x'', p_status = 404, p_rest = []\<rparr>,
                ttlOverride = Some (Num 30), body = TextBody ''not found''\<rparr>)],
     calls = [KvGet ''httpcache:http://a/x'',
              HttpFetch ''http://a/x'' \<lparr>reqMethod = Some ''GET'', reqHeaders = None,
                                       skipCache = None\<rparr>,
              KvSet ''httpcache:http://a/x''
                \<lparr>policy = \<lparr>p_url = Some ''http://a/x'', p_status = 404, p_rest = []\<rparr>,
                 ttlOverride = Some (Num 30), body = TextBody ''not found''\<rparr>
                \<lparr>ttl = Some (Num 30)\<rparr>]\<rparr>)"
  by (simp add: example_defs model_defs Let_def)

text \<open>
  Claim C6. When the storage decision starts a write, the TTL it passes to \<^verbatim>\<open>set\<close> is the
  computed TTL, doubled when the response has an \<^verbatim>\<open>ETag\<close> or a \<^verbatim>\<open>Last-Modified\<close> header and
  unchanged when it has neither; the write is the one call the decision makes. The computed
  TTL is the override, or without one the time to live of the evaluator in milliseconds
  divided by 1000 and rounded to the nearest whole number of seconds, a half rounded up.
\<close>

theorem cache_write_ttl:
  assumes "storeResponseAndReturnClone E u resp b req pol key copts w = (Inr r, w')"
    and "cacheWritePromise r = Some wr"
    and "resolveCacheOptions copts u resp req = Inr co"
  shows "ttl (w_options wr) =
           Some (let computed =
                       (case (case co of None \<Rightarrow> None | Some c \<Rightarrow> ttl c) of
                          None \<Rightarrow>
                            (case timeToLive E pol of
                               Num ms \<Rightarrow> Num (of_int \<lfloor>ms / 1000 + 1 / 2\<rfloor>)
                             | NaN \<Rightarrow> NaN)
                        | Some t \<Rightarrow> t)
                 in if headers_has (headers resp) ''ETag'' \<or>
                       headers_has (headers resp) ''Last-Modified''
                    then (case computed of Num s \<Rightarrow> Num (2 * s) | NaN \<Rightarrow> NaN)
                    else computed) \<and>
         calls w' = calls w @ [KvSet (w_key wr) (w_entry wr) (w_options wr)] \<and>
         store w' = kv_set E (w_key wr) (w_entry wr) (w_options wr) (store w)"
proof -
  have round: "Math_round (num_div1000 x) =
                 (case x of Num ms \<Rightarrow> Num (of_int \<lfloor>ms / 1000 + 1 / 2\<rfloor>) | NaN \<Rightarrow> NaN)" for x
    by (cases x) simp_all
  have twice: "num_times x (Num 2) = (case x of Num s \<Rightarrow> Num (2 * s) | NaN \<Rightarrow> NaN)" for x
    by (cases x) simp_all
  from assms show ?thesis
    by (auto simp: storeResponse_Inr Let_def canBeRevalidated_def round twice
          split: if_splits option.splits)
qed

text \<open>
  Two writes: 2500 ms to live and an entity tag give the TTL 6, twice the 3 that 2.5 is
  rounded to; 1400 ms to live and no validator give the TTL 1.
\<close>

theorem cache_write_ttl_witness:
  "map_sum id (map_option (ttl \<circ> w_options) \<circ> cacheWritePromise)
     (fst (storeResponseAndReturnClone
             (exampleEnv (origin 200 [] []) (Num 0) False True (Num 2500)) ''http://a/x''
             \<lparr>url = Some ''http://a/x'', status = 200, headers = [(''ETag'', [''v1''])],
              hasRaw = True, bodyText = ''hello''\<rparr>
             (TextBody ''hello'') \<lparr>reqMethod = Some ''GET'', reqHeaders = None, skipCache = None\<rparr>
             \<lparr>p_url = Some ''http://a/x'', p_status = 200, p_rest = [(''ETag'', HString ''v1'')]\<rparr>
             ''http://a/x'' None emptyWorld)) = Inr (Some (Some (Num 6))) \<and>
   map_sum id (map_option (ttl \<circ> w_options) \<circ> cacheWritePromise)
     (fst (storeResponseAndReturnClone
             (exampleEnv (origin 200 [] []) (Num 0) False True (Num 1400)) ''http://a/x''
             \<lparr>url = Some ''http://a/x'', status = 200, headers = [],
              hasRaw = True, bodyText = ''hello''\<rparr>
             (TextBody ''hello'') \<lparr>reqMethod = Some ''GET'', reqHeaders = None, skipCache = None\<rparr>
             \<lparr>p_url = Some ''http://a/x'', p_status = 200, p_rest = []\<rparr>
             ''http://a/x'' None emptyWorld)) = Inr (Some (Some (Num 1)))"
proof -
  let ?req = "\<lparr>reqMethod = Some ''GET'', reqHeaders = None, skipCache = None\<rparr>"
  let ?E1 = "exampleEnv (origin 200 [] []) (Num 0) False True (Num 2500)"
  let ?resp1 = "\<lparr>url = Some ''http://a/x'', status = 200, headers = [(''ETag'', [''v1''])],
                 hasRaw = True, bodyText = ''hello''\<rparr>"
  let ?pol1 = "\<lparr>p_url = Some ''http://a/x'', p_status = 200, p_rest = [(''ETag'', HString ''v1'')]\<rparr>"
  let ?E2 = "exampleEnv (origin 200 [] []) (Num 0) False True (Num 1400)"
  let ?resp2 = "\<lparr>url = Some ''http://a/x'', status = 200, headers = [],
                 hasRaw = True, bodyText = ''hello''\<rparr>"
  let ?pol2 = "\<lparr>p_url = Some ''http://a/x'', p_status = 200, p_rest = []\<rparr>"
  obtain r1 w1 where run1: "storeResponseAndReturnClone ?E1 ''http://a/x'' ?resp1
      (TextBody ''hello'') ?req ?pol1 ''http://a/x'' None emptyWorld = (Inr r1, w1)"
    by (simp add: example_defs model_defs Let_def)
  obtain r2 w2 where run2: "storeResponseAndReturnClone ?E2 ''http://a/x'' ?resp2
      (TextBody ''hello'') ?req ?pol2 ''http://a/x'' None emptyWorld = (Inr r2, w2)"
    by (simp add: example_defs model_defs Let_def)
  from run1 obtain wr1 where wr1: "cacheWritePromise r1 = Some wr1"
    by (auto simp: example_defs model_defs Let_def)
  from run2 obtain wr2 where wr2: "cacheWritePromise r2 = Some wr2"
    by (auto simp: example_defs model_defs Let_def)
  have co1: "resolveCacheOptions None ''http://a/x'' ?resp1 ?req = Inr None"
    and co2: "resolveCacheOptions None ''http://a/x'' ?resp2 ?req = Inr None"
    by (simp_all add: resolveCacheOptions_def)
  have t1: "ttl (w_options wr1) = Some (Num 6)"
    using cache_write_ttl [OF run1 wr1 co1]
    by (simp add: example_defs headers_has_def headers_find_def toLowerCase_def
          toLowerCase_char_def)
  have t2: "ttl (w_options wr2) = Some (Num 1)"
    using cache_write_ttl [OF run2 wr2 co2]
    by (simp add: example_defs headers_has_def headers_find_def toLowerCase_def
          toLowerCase_char_def)
  from t1 t2 show ?thesis
    by (simp add: run1 run2 wr1 wr2)
qed

section \<open>Freshness of a hit\<close>

text \<open>
  Claim C2, as amended. On a hit whose entry carries a truthy TTL override (a number other
  than 0 and \<^verbatim>\<open>NaN\<close>), the entry is served from the store when its age is less than the
  override and revalidated when it is not, and \<^verbatim>\<open>satisfiesWithoutRevalidation\<close> is not used:
  the outcome is the same with any other function \<open>f\<close> in its place. On a hit whose entry
  carries the override 0 or \<^verbatim>\<open>NaN\<close> the override does not take precedence: as for an entry
  without an override, the entry is served from the store when
  \<^verbatim>\<open>satisfiesWithoutRevalidation\<close> holds and revalidated when it does not.
\<close>

theorem ttlOverride_decides_freshness:
  assumes "reqMethod req \<noteq> Some ''HEAD''"
    and "lookup E (requestOptsWithMethod req) (cacheKeyFor cache u) w = (Inr (Some entry), w1)"
    and "fromObject E (policy entry) = Inr p"
  shows "(\<forall>t. ttlOverride entry = Some t \<and> truthy (Some t) \<longrightarrow>
            fetch E u req cache w =
              (if num_lt (age E (p\<lparr>p_url := None\<rparr>)) t
               then (Inr \<lparr>response = responseFromPolicy E (p_url p) (p\<lparr>p_url := None\<rparr>),
                          parsedBody = body entry, responseFromCache = Some True,
                          cacheWritePromise = None\<rparr>, w1)
               else fetchRevalidate E u (requestOptsWithMethod req) cache (cacheKeyFor cache u)
                      (p\<lparr>p_url := None\<rparr>) (body entry) w1) \<and>
            (\<forall>f. fetch (E\<lparr>satisfiesWithoutRevalidation := f\<rparr>) u req cache w =
                   fetch E u req cache w)) \<and>
         (\<not> truthy (ttlOverride entry) \<longrightarrow>
            fetch E u req cache w =
              (if satisfiesWithoutRevalidation E (p\<lparr>p_url := None\<rparr>)
                    (policyRequestFrom u (requestOptsWithMethod req))
               then (Inr \<lparr>response = responseFromPolicy E (p_url p) (p\<lparr>p_url := None\<rparr>),
                          parsedBody = body entry, responseFromCache = Some True,
                          cacheWritePromise = None\<rparr>, w1)
               else fetchRevalidate E u (requestOptsWithMethod req) cache (cacheKeyFor cache u)
                      (p\<lparr>p_url := None\<rparr>) (body entry) w1))"
proof -
  let ?pol = "p\<lparr>p_url := None\<rparr>"
  let ?fresh = "(Inr \<lparr>response = responseFromPolicy E (p_url p) ?pol,
                       parsedBody = body entry, responseFromCache = Some True,
                       cacheWritePromise = None\<rparr>, w1)"
  let ?stale = "fetchRevalidate E u (requestOptsWithMethod req) cache (cacheKeyFor cache u)
                  ?pol (body entry) w1"
  have falsy: "fetch E u req cache w =
                 (if satisfiesWithoutRevalidation E ?pol
                       (policyRequestFrom u (requestOptsWithMethod req))
                  then ?fresh else ?stale)"
    if "\<not> truthy (ttlOverride entry)"
    using fetch_hit [OF assms] that by (simp add: isFresh_falsy)
  have truthy: "fetch E u req cache w = (if num_lt (age E ?pol) t then ?fresh else ?stale) \<and>
                (\<forall>f. fetch (E\<lparr>satisfiesWithoutRevalidation := f\<rparr>) u req cache w =
                       fetch E u req cache w)"
    if t: "ttlOverride entry = Some t" "truthy (Some t)" for t
  proof -
    have a: "fetch E u req cache w = (if num_lt (age E ?pol) t then ?fresh else ?stale)"
      using fetch_hit [OF assms] t by (simp add: isFresh_truthy)
    have "fetch (E\<lparr>satisfiesWithoutRevalidation := f\<rparr>) u req cache w = fetch E u req cache w"
      for f
    proof -
      let ?E' = "E\<lparr>satisfiesWithoutRevalidation := f\<rparr>"
      have l: "lookup ?E' (requestOptsWithMethod req) (cacheKeyFor cache u) w =
                 (Inr (Some entry), w1)"
        using assms(2) by (simp add: lookup_satisfies_irrelevant)
      have o: "fromObject ?E' (policy entry) = Inr p"
        using assms(3) by simp
      have "fetch ?E' u req cache w =
              (if num_lt (age ?E' ?pol) t
               then (Inr \<lparr>response = responseFromPolicy ?E' (p_url p) ?pol,
                          parsedBody = body entry, responseFromCache = Some True,
                          cacheWritePromise = None\<rparr>, w1)
               else fetchRevalidate ?E' u (requestOptsWithMethod req) cache
                      (cacheKeyFor cache u) ?pol (body entry) w1)"
        using fetch_hit [OF assms(1) l o] t by (simp add: isFresh_truthy)
      also have "\<dots> = fetch E u req cache w"
        by (simp add: a fetchRevalidate_satisfies_irrelevant responseFromPolicy_def)
      finally show ?thesis .
    qed
    with a show ?thesis by simp
  qed
  from falsy truthy show ?thesis by blast
qed

text \<open>
  An entry with the override 30 and the age 10 is served from the store, whatever the
  evaluator says of its headers; an entry with the override \<^verbatim>\<open>NaN\<close> is revalidated when the
  evaluator says that its headers do not allow to serve it.
\<close>

theorem ttlOverride_decides_freshness_witness:
  "fetch (exampleEnv (origin 500 [] ''down'') (Num 10) False True (Num 0)) ''http://a/x''
       getRequest None (storedWorld (Some (Num 30))) =
     (Inr \<lparr>response = \<lparr>url = Some ''http://a/x'', status = 200,
                         headers = [(''etag'', [''v1'']),
                                    (''Content-Type'', [''text/plain;charset=UTF-8''])],
                         hasRaw = True, bodyText = []\<rparr>,
           parsedBody = TextBody ''hello'', responseFromCache = Some True,
           cacheWritePromise = None\<rparr>,
      \<lparr>store = [(''httpcache:http://a/x'', storedEntry (Some (Num 30)))],
       calls = [KvGet ''httpcache:http://a/x'']\<rparr>) \<and>
   fetch (exampleEnv (origin 500 [] ''down'') (Num 10) False True (Num 0)
            \<lparr>satisfiesWithoutRevalidation := \<lambda>p preq. True\<rparr>) ''http://a/x'' getRequest None
       (storedWorld (Some (Num 30))) =
   fetch (exampleEnv (origin 500 [] ''down'') (Num 10) False True (Num 0)) ''http://a/x''
       getRequest None (storedWorld (Some (Num 30))) \<and>
   fetch (exampleEnv (origin 500 [] ''down'') (Num 10) False True (Num 0)) ''http://a/x''
       getRequest None (storedWorld (Some NaN)) =
   fetchRevalidate (exampleEnv (origin 500 [] ''down'') (Num 10) False True (Num 0))
       ''http://a/x'' (requestOptsWithMethod getRequest) None ''http://a/x''
       \<lparr>p_url = None, p_status = 200, p_rest = [(''etag'', HString ''v1'')]\<rparr>
       (TextBody ''hello'')
       \<lparr>store = [(''httpcache:http://a/x'', storedEntry (Some NaN))],
        calls = [KvGet ''httpcache:http://a/x'']\<rparr>"
proof -
  let ?E = "exampleEnv (origin 500 [] ''down'') (Num 10) False True (Num 0)"
  let ?p = "\<lparr>p_url = Some ''http://a/x'', p_status = 200, p_rest = [(''etag'', HString ''v1'')]\<rparr>"
  have m: "reqMethod getRequest \<noteq> Some ''HEAD''" by (simp add: getRequest_def)
  have l: "lookup ?E (requestOptsWithMethod getRequest) (cacheKeyFor None ''http://a/x'')
             (storedWorld tOverride) =
           (Inr (Some (storedEntry tOverride)),
            \<lparr>store = [(''httpcache:http://a/x'', storedEntry tOverride)],
             calls = [KvGet ''httpcache:http://a/x'']\<rparr>)" for tOverride
    by (simp add: example_defs lookup_def keyValueCache_get_def requestOptsWithMethod_def
          cacheKeyFor_def)
  have o: "fromObject ?E (policy (storedEntry tOverride)) = Inr ?p" for tOverride
    by (simp add: example_defs)
  have t30: "ttlOverride (storedEntry (Some (Num 30))) = Some (Num 30) \<and> truthy (Some (Num 30))"
    by (simp add: storedEntry_def)
  have tNaN: "\<not> truthy (ttlOverride (storedEntry (Some NaN)))"
    by (simp add: storedEntry_def)
  note override =
    ttlOverride_decides_freshness [OF m l o, of "Some (Num 30)", THEN conjunct1, THEN spec,
      THEN mp, OF t30]
  note no_override =
    ttlOverride_decides_freshness [OF m l o, of "Some NaN", THEN conjunct2, THEN mp, OF tNaN]
  have a: "fetch ?E ''http://a/x'' getRequest None (storedWorld (Some (Num 30))) =
     (Inr \<lparr>response = \<lparr>url = Some ''http://a/x'', status = 200,
                         headers = [(''etag'', [''v1'']),
                                    (''Content-Type'', [''text/plain;charset=UTF-8''])],
                         hasRaw = True, bodyText = []\<rparr>,
           parsedBody = TextBody ''hello'', responseFromCache = Some True,
           cacheWritePromise = None\<rparr>,
      \<lparr>store = [(''httpcache:http://a/x'', storedEntry (Some (Num 30)))],
       calls = [KvGet ''httpcache:http://a/x'']\<rparr>)"
    unfolding override [THEN conjunct1]
    by (simp add: example_defs responseFromPolicy_def NodeFetchResponse_def headers_of_list_def
          headers_append_def headers_has_def headers_find_def toLowerCase_def
          toLowerCase_char_def Let_def)
  have b: "fetch (?E\<lparr>satisfiesWithoutRevalidation := \<lambda>p preq. True\<rparr>) ''http://a/x'' getRequest
             None (storedWorld (Some (Num 30))) =
           fetch ?E ''http://a/x'' getRequest None (storedWorld (Some (Num 30)))"
    using override [THEN conjunct2] by blast
  have c: "fetch ?E ''http://a/x'' getRequest None (storedWorld (Some NaN)) =
           fetchRevalidate ?E ''http://a/x'' (requestOptsWithMethod getRequest) None ''http://a/x''
             \<lparr>p_url = None, p_status = 200, p_rest = [(''etag'', HString ''v1'')]\<rparr>
             (TextBody ''hello'')
             \<lparr>store = [(''httpcache:http://a/x'', storedEntry (Some NaN))],
              calls = [KvGet ''httpcache:http://a/x'']\<rparr>"
    unfolding no_override
    by (simp add: exampleEnv_def storedEntry_def cacheKeyFor_def)
  from a b c show ?thesis by blast
qed

text \<open>
  Claim C2 as stated fails for an entry whose override is \<^verbatim>\<open>NaN\<close>, which is falsy in
  \<^verbatim>\<open>ttlOverride && ...\<close>. The storage decision writes such an entry for a \<^verbatim>\<open>GET\<close> with
  \<^verbatim>\<open>cacheOptions: {ttl: NaN}\<close> and a storable response, since \<^verbatim>\<open>NaN <= 0\<close> is false. On
  the next call the age is not less than the override, yet the entry is served from the
  store because the evaluator calls it fresh, and the outcome changes with the answer of
  \<^verbatim>\<open>satisfiesWithoutRevalidation\<close>.
\<close>

theorem NaN_ttlOverride_counterexample:
  "store (snd (fetch (exampleEnv (origin 200 [] ''hello'') (Num 0) False True (Num 60000))
                 ''http://a/x'' getRequest
                 (Some \<lparr>cacheKey = None, cacheOptions = Some (Static \<lparr>ttl = Some NaN\<rparr>),
                        httpCacheSemanticsCachePolicyOptions = None\<rparr>) emptyWorld)) =
     [(''httpcache:http://a/x'',
       \<lparr>policy = \<lparr>p_url = Some ''http://a/x'', p_status = 200, p_rest = []\<rparr>,
        ttlOverride = Some NaN, body = TextBody ''hello''\<rparr>)] \<and>
   \<not> num_lt (age (exampleEnv (origin 500 [] ''down'') (Num 10) True True (Num 0))
               \<lparr>p_url = None, p_status = 200, p_rest = []\<rparr>) NaN \<and>
   map_sum id (\<lambda>r. (parsedBody r, responseFromCache r))
     (fst (fetch (exampleEnv (origin 500 [] ''down'') (Num 10) True True (Num 0)) ''http://a/x''
             getRequest None
             (snd (fetch (exampleEnv (origin 200 [] ''hello'') (Num 0) False True (Num 60000))
                     ''http://a/x'' getRequest
                     (Some \<lparr>cacheKey = None, cacheOptions = Some (Static \<lparr>ttl = Some NaN\<rparr>),
                            httpCacheSemanticsCachePolicyOptions = None\<rparr>) emptyWorld)))) =
     Inr (TextBody ''hello'', Some True) \<and>
   map_sum id (\<lambda>r. (parsedBody r, responseFromCache r))
     (fst (fetch (exampleEnv (origin 500 [] ''down'') (Num 10) True True (Num 0)
                    \<lparr>satisfiesWithoutRevalidation := \<lambda>p preq. False\<rparr>) ''http://a/x''
             getRequest None
             (snd (fetch (exampleEnv (origin 200 [] ''hello'') (Num 0) False True (Num 60000))
                     ''http://a/x'' getRequest
                     (Some \<lparr>cacheKey = None, cacheOptions = Some (Static \<lparr>ttl = Some NaN\<rparr>),
                            httpCacheSemanticsCachePolicyOptions = None\<rparr>) emptyWorld)))) =
     Inr (TextBody ''down'', None)"
  by (simp add: example_defs model_defs Let_def)

section \<open>Revalidation\<close>

text \<open>
  Claim C3. In a run of revalidations that the evaluator reports unmodified, however long,
  where each call finds the entry the calls before it left (written again or still there),
  every call returns, and its parsed body is the body of the entry the run started on.
\<close>

theorem unmodified_revalidations_serve_stored_body:
  assumes "unmodifiedRevalidations entry cs"
  shows "\<forall>c \<in> set cs. servedBody c = Inr (body entry)"
  using assms
proof (induction cs arbitrary: entry)
  case Nil
  then show ?case by simp
next
  case (Cons c cs)
  obtain E u req cache w where c: "c = (E, u, req, cache, w)"
    by (cases c)
  from Cons.prems c have step: "revalidatesUnmodified E u req cache w entry"
    and rest: "unmodifiedRevalidations (entryAfter E u req cache w entry) cs"
    by simp_all
  from revalidatesUnmodified_serves_stored [OF step]
  have "servedBody c = Inr (body entry)"
    by (auto simp: servedBody_def c)
  moreover from Cons.IH [OF rest] entryAfter_body [OF step]
  have "\<forall>c' \<in> set cs. servedBody c' = Inr (body entry)"
    by simp
  ultimately show ?case by simp
qed

theorem unmodified_revalidations_serve_stored_body_witness:
  "snd (fetch (exampleEnv (origin 304 [] []) (Num 100) False True (Num 60000)) ''http://a/x'' getRequest None
          (storedWorld None)) =
     \<lparr>store = [(''httpcache:http://a/x'', storedEntry None)],
      calls = [KvGet ''httpcache:http://a/x'',
               HttpFetch ''http://a/x''
                 \<lparr>reqMethod = Some ''GET'', reqHeaders = Some [(''if-none-match'', ''v1'')],
                  skipCache = None\<rparr>,
               KvSet ''httpcache:http://a/x'' (storedEntry None) \<lparr>ttl = Some (Num 120)\<rparr>]\<rparr> \<and>
   servedBody (exampleEnv (origin 304 [] []) (Num 100) False True (Num 60000), ''http://a/x'', getRequest,
               None, storedWorld None) = Inr (TextBody ''hello'') \<and>
   servedBody (exampleEnv (origin 304 [] []) (Num 200) False True (Num 60000), ''http://a/x'', getRequest,
               None,
               \<lparr>store = [(''httpcache:http://a/x'', storedEntry None)],
                calls = [KvGet ''httpcache:http://a/x'',
                         HttpFetch ''http://a/x''
                           \<lparr>reqMethod = Some ''GET'',
                            reqHeaders = Some [(''if-none-match'', ''v1'')], skipCache = None\<rparr>,
                         KvSet ''httpcache:http://a/x'' (storedEntry None) \<lparr>ttl = Some (Num 120)\<rparr>]\<rparr>)
     = Inr (TextBody ''hello'')"
proof -
  let ?E1 = "exampleEnv (origin 304 [] []) (Num 100) False True (Num 60000)"
  let ?E2 = "exampleEnv (origin 304 [] []) (Num 200) False True (Num 60000)"
  let ?w1 = "\<lparr>store = [(''httpcache:http://a/x'', storedEntry None)],
      calls = [KvGet ''httpcache:http://a/x'',
               HttpFetch ''http://a/x''
                 \<lparr>reqMethod = Some ''GET'', reqHeaders = Some [(''if-none-match'', ''v1'')],
                  skipCache = None\<rparr>,
               KvSet ''httpcache:http://a/x'' (storedEntry None) \<lparr>ttl = Some (Num 120)\<rparr>]\<rparr>"
  have run1: "fetch ?E1 ''http://a/x'' getRequest None (storedWorld None) =
      (Inr \<lparr>response = \<lparr>url = Some ''http://a/x'', status = 200,
                          headers = [(''etag'', [''v1'']),
                                     (''Content-Type'', [''text/plain;charset=UTF-8''])],
                          hasRaw = True, bodyText = []\<rparr>,
            parsedBody = TextBody ''hello'', responseFromCache = None,
            cacheWritePromise = Some \<lparr>w_key = ''httpcache:http://a/x'',
                                      w_entry = storedEntry None,
                                      w_options = \<lparr>ttl = Some (Num 120)\<rparr>\<rparr>\<rparr>, ?w1)"
    by (simp add: example_defs model_defs Let_def)
  have after: "entryAfter ?E1 ''http://a/x'' getRequest None (storedWorld None) (storedEntry None)
                 = storedEntry None"
    by (simp add: entryAfter_def run1)
  have step1: "revalidatesUnmodified ?E1 ''http://a/x'' getRequest None (storedWorld None)
                 (storedEntry None)"
    by (simp add: path_defs example_defs model_defs Let_def)
  have step2: "revalidatesUnmodified ?E2 ''http://a/x'' getRequest None ?w1 (storedEntry None)"
    by (simp add: path_defs example_defs model_defs Let_def)
  have chain: "unmodifiedRevalidations (storedEntry None)
                 [(?E1, ''http://a/x'', getRequest, None, storedWorld None),
                  (?E2, ''http://a/x'', getRequest, None, ?w1)]"
    by (simp add: step1 step2 after)
  from unmodified_revalidations_serve_stored_body [OF chain] run1 show ?thesis
    by (simp add: storedEntry_def)
qed

text \<open>
  Claim C5, as amended. On a stale hit the one live fetch is the revalidation, made right
  after the lookup. Its request is the caller's request with the headers replaced by the
  revalidation headers of the evaluator, which is given the caller's method and headers.
  Of these headers a name with a string that is not empty carries that string, a name with
  an array carries its values joined with a comma and a space, and a name that the
  evaluator does not give, or gives as \<^verbatim>\<open>undefined\<close>, is not in the request: the cache adds
  no header of the caller's itself.
\<close>

theorem revalidation_request_headers_from_evaluator:
  assumes "staleHit E u req cache w entry p"
  shows "(\<exists>cs. calls (snd (fetch E u req cache w)) =
                 calls w @ KvGet (''httpcache:'' @ cacheKeyFor cache u) #
                   HttpFetch u (revalidationRequestFor E u (requestOptsWithMethod req)
                                  (p\<lparr>p_url := None\<rparr>)) # cs \<and>
               (\<forall>u' rq. HttpFetch u' rq \<notin> set cs)) \<and>
         revalidationRequestFor E u (requestOptsWithMethod req) (p\<lparr>p_url := None\<rparr>) =
           (requestOptsWithMethod req)\<lparr>reqHeaders :=
              Some (cachePolicyHeadersToFetcherHeadersInit
                      (revalidationHeaders E (p\<lparr>p_url := None\<rparr>)
                         \<lparr>pr_url = u,
                          pr_method = (case reqMethod req of None \<Rightarrow> ''GET'' | Some m \<Rightarrow> m),
                          pr_headers = (case reqHeaders req of None \<Rightarrow> [] | Some h \<Rightarrow> h)\<rparr>))\<rparr> \<and>
         (distinct (map fst hs) \<longrightarrow>
            (\<forall>v. map_of hs name = Some (HString v) \<and> v \<noteq> [] \<longrightarrow>
                 map_of (cachePolicyHeadersToFetcherHeadersInit hs) name = Some v) \<and>
            (\<forall>vs. map_of hs name = Some (HArray vs) \<longrightarrow>
                  map_of (cachePolicyHeadersToFetcherHeadersInit hs) name =
                    Some (join '', '' vs)) \<and>
            (map_of hs name = None \<or> map_of hs name = Some HUndefined \<longrightarrow>
               map_of (cachePolicyHeadersToFetcherHeadersInit hs) name = None))"
proof -
  let ?req = "requestOptsWithMethod req"
  let ?key = "cacheKeyFor cache u"
  let ?pol = "p\<lparr>p_url := None\<rparr>"
  have m: "reqMethod req \<noteq> Some ''HEAD''"
    using assms by (simp add: staleHit_def Let_def method_HEAD_iff)
  have p: "fromObject E (policy entry) = Inr p"
    using assms by (simp add: staleHit_def Let_def)
  have nf: "\<not> isFresh E ?pol (ttlOverride entry) (policyRequestFrom u ?req)"
    using assms by (simp add: staleHit_def Let_def)
  have found: "fst (lookup E ?req ?key w) = Inr (Some entry)"
    using assms by (simp add: staleHit_def Let_def)
  then obtain s' where
    l: "lookup E ?req ?key w =
          (Inr (Some entry), \<lparr>store = s', calls = calls w @ [KvGet (''httpcache:'' @ ?key)]\<rparr>)"
    by (auto simp: lookup_def keyValueCache_get_def split: if_splits prod.splits)
  let ?w1 = "\<lparr>store = s', calls = calls w @ [KvGet (''httpcache:'' @ ?key)]\<rparr>"
  have f: "fetch E u req cache w = fetchRevalidate E u ?req cache ?key ?pol (body entry) ?w1"
    using fetch_hit [OF m l p] nf by simp
  have a: "\<exists>cs. calls (snd (fetch E u req cache w)) =
                 calls w @ KvGet (''httpcache:'' @ ?key) #
                   HttpFetch u (revalidationRequestFor E u ?req ?pol) # cs \<and>
               (\<forall>u' rq. HttpFetch u' rq \<notin> set cs)"
    unfolding f using fetchRevalidate_calls [of E u ?req cache ?key ?pol "body entry" ?w1]
    by simp
  have b: "revalidationRequestFor E u ?req ?pol =
           ?req\<lparr>reqHeaders :=
              Some (cachePolicyHeadersToFetcherHeadersInit
                      (revalidationHeaders E ?pol
                         \<lparr>pr_url = u,
                          pr_method = (case reqMethod req of None \<Rightarrow> ''GET'' | Some m \<Rightarrow> m),
                          pr_headers = (case reqHeaders req of None \<Rightarrow> [] | Some h \<Rightarrow> h)\<rparr>))\<rparr>"
    by (simp add: revalidationRequestFor_def policyRequestFrom_def requestOptsWithMethod_def)
  have c: "map_of (cachePolicyHeadersToFetcherHeadersInit hs) name =
             Option.bind (map_of hs name) fetcherHeaderValue"
    if "distinct (map fst hs)"
    using that
    by (simp add: cachePolicyHeadersToFetcherHeadersInit_def headerRecordFrom_lookup
          split: option.splits)
  have c': "distinct (map fst hs) \<longrightarrow>
            (\<forall>v. map_of hs name = Some (HString v) \<and> v \<noteq> [] \<longrightarrow>
                 map_of (cachePolicyHeadersToFetcherHeadersInit hs) name = Some v) \<and>
            (\<forall>vs. map_of hs name = Some (HArray vs) \<longrightarrow>
                  map_of (cachePolicyHeadersToFetcherHeadersInit hs) name =
                    Some (join '', '' vs)) \<and>
            (map_of hs name = None \<or> map_of hs name = Some HUndefined \<longrightarrow>
               map_of (cachePolicyHeadersToFetcherHeadersInit hs) name = None)"
    by (auto simp: c fetcherHeaderValue_def)
  from a b c' show ?thesis by blast
qed

text \<open>
  A caller's \<^verbatim>\<open>accept\<close> header, which the evaluator gives back, is in the request of the
  revalidation next to the validator.
\<close>

theorem revalidation_request_headers_from_evaluator_witness:
  "staleHit (exampleEnv (origin 304 [] []) (Num 100) False True (Num 60000)) ''http://a/x''
     \<lparr>reqMethod = None, reqHeaders = Some [(''accept'', ''application/json'')], skipCache = None\<rparr>
     None (storedWorld None) (storedEntry None) (policy (storedEntry None)) \<and>
   calls (snd (fetch (exampleEnv (origin 304 [] []) (Num 100) False True (Num 60000)) ''http://a/x''
     \<lparr>reqMethod = None, reqHeaders = Some [(''accept'', ''application/json'')], skipCache = None\<rparr>
     None (storedWorld None))) =
     [KvGet ''httpcache:http://a/x'',
      HttpFetch ''http://a/x''
        \<lparr>reqMethod = Some ''GET'',
         reqHeaders = Some [(''accept'', ''application/json''), (''if-none-match'', ''v1'')],
         skipCache = None\<rparr>,
      KvSet ''httpcache:http://a/x'' (storedEntry None) \<lparr>ttl = Some (Num 120)\<rparr>] \<and>
   map_of (cachePolicyHeadersToFetcherHeadersInit
             [(''accept'', HString ''application/json''), (''if-none-match'', HString ''v1'')])
     ''accept'' = Some ''application/json''"
proof -
  let ?E = "exampleEnv (origin 304 [] []) (Num 100) False True (Num 60000)"
  let ?req = "\<lparr>reqMethod = None, reqHeaders = Some [(''accept'', ''application/json'')],
               skipCache = None\<rparr>"
  let ?hs = "[(''accept'', HString ''application/json''), (''if-none-match'', HString ''v1'')]"
  have stale: "staleHit ?E ''http://a/x'' ?req None (storedWorld None) (storedEntry None)
                 (policy (storedEntry None))"
    by (simp add: path_defs example_defs model_defs Let_def)
  have run: "calls (snd (fetch ?E ''http://a/x'' ?req None (storedWorld None))) =
     [KvGet ''httpcache:http://a/x'',
      HttpFetch ''http://a/x''
        \<lparr>reqMethod = Some ''GET'',
         reqHeaders = Some [(''accept'', ''application/json''), (''if-none-match'', ''v1'')],
         skipCache = None\<rparr>,
      KvSet ''httpcache:http://a/x'' (storedEntry None) \<lparr>ttl = Some (Num 120)\<rparr>]"
    by (simp add: example_defs model_defs Let_def)
  have d: "distinct (map fst ?hs)" by simp
  have v: "map_of ?hs ''accept'' = Some (HString ''application/json'') \<and>
           ''application/json'' \<noteq> []"
    by simp
  note conv = revalidation_request_headers_from_evaluator
    [OF stale, of ?hs "''accept''", THEN conjunct2, THEN conjunct2, THEN mp, OF d,
     THEN conjunct1, THEN spec, THEN mp, OF v]
  from stale run conv show ?thesis by blast
qed

text \<open>
  Claim C5 as stated fails: the evaluator decides which headers of the caller the request
  of the revalidation has, and the cache adds none. Here the caller sends \<^verbatim>\<open>if-range\<close>,
  which the evaluator leaves out of its revalidation headers, as the library does: the
  request of the revalidation has the validator only.
\<close>

theorem revalidation_drops_caller_header_counterexample:
  "staleHit (exampleEnv (origin 304 [] []) (Num 100) False True (Num 60000)) ''http://a/x''
     \<lparr>reqMethod = None, reqHeaders = Some [(''if-range'', ''v1'')], skipCache = None\<rparr>
     None (storedWorld None) (storedEntry None) (policy (storedEntry None)) \<and>
   revalidationHeaders (exampleEnv (origin 304 [] []) (Num 100) False True (Num 60000))
     \<lparr>p_url = None, p_status = 200, p_rest = [(''etag'', HString ''v1'')]\<rparr>
     (policyRequestFrom ''http://a/x''
        \<lparr>reqMethod = Some ''GET'', reqHeaders = Some [(''if-range'', ''v1'')],
         skipCache = None\<rparr>) =
     [(''if-none-match'', HString ''v1'')] \<and>
   calls (snd (fetch (exampleEnv (origin 304 [] []) (Num 100) False True (Num 60000)) ''http://a/x''
     \<lparr>reqMethod = None, reqHeaders = Some [(''if-range'', ''v1'')], skipCache = None\<rparr>
     None (storedWorld None))) =
     [KvGet ''httpcache:http://a/x'',
      HttpFetch ''http://a/x''
        \<lparr>reqMethod = Some ''GET'', reqHeaders = Some [(''if-none-match'', ''v1'')],
         skipCache = None\<rparr>,
      KvSet ''httpcache:http://a/x'' (storedEntry None) \<lparr>ttl = Some (Num 120)\<rparr>] \<and>
   map_of [(''if-none-match'', ''v1'')] ''if-range'' \<noteq> map_of [(''if-range'', ''v1'')] ''if-range''"
  by (simp add: path_defs example_defs model_defs Let_def)

section \<open>The flag responseFromCache\<close>

text \<open>
  Claim C4, as amended. A call whose method is not \<^verbatim>\<open>HEAD\<close> and that returns has
  \<^verbatim>\<open>responseFromCache: true\<close> on a fresh hit and leaves the flag unset on every other path,
  the miss and the revalidation alike.
\<close>

theorem responseFromCache_only_on_fresh_hit:
  assumes "reqMethod req \<noteq> Some ''HEAD''" and "fetch E u req cache w = (Inr r, w')"
  shows "responseFromCache r = (if freshHit E u req cache w then Some True else None)"
proof -
  let ?req = "requestOptsWithMethod req"
  let ?key = "cacheKeyFor cache u"
  have m: "reqMethod ?req \<noteq> Some ''HEAD''"
    using assms(1) by (simp add: method_HEAD_iff)
  obtain x w1 where l: "lookup E ?req ?key w = (x, w1)"
    by (cases "lookup E ?req ?key w")
  show ?thesis
  proof (cases x)
    case (Inl e)
    with assms l show ?thesis by (simp add: fetch_lookup_error)
  next
    case (Inr found)
    show ?thesis
    proof (cases found)
      case None
      with Inr l assms have "fetchMiss E u ?req cache ?key w1 = (Inr r, w')"
        by (simp add: fetch_miss)
      then have "responseFromCache r = None" by (rule fetchMiss_result)
      moreover have "\<not> freshHit E u req cache w"
        using l Inr None by (simp add: freshHit_def Let_def)
      ultimately show ?thesis by simp
    next
      case (Some entry)
      with Inr l have l': "lookup E ?req ?key w = (Inr (Some entry), w1)" by simp
      show ?thesis
      proof (cases "fromObject E (policy entry)")
        case (Inl e)
        with assms l' show ?thesis by (simp add: fetch_fromObject_error)
      next
        case p: (Inr p)
        have fh: "freshHit E u req cache w =
                    isFresh E (p\<lparr>p_url := None\<rparr>) (ttlOverride entry) (policyRequestFrom u ?req)"
          using m l' p by (simp add: freshHit_def Let_def)
        show ?thesis
        proof (cases "isFresh E (p\<lparr>p_url := None\<rparr>) (ttlOverride entry) (policyRequestFrom u ?req)")
          case True
          with fetch_hit [OF assms(1) l' p] assms(2) fh show ?thesis by auto
        next
          case False
          with fetch_hit [OF assms(1) l' p] assms(2)
          have "fetchRevalidate E u ?req cache ?key (p\<lparr>p_url := None\<rparr>) (body entry) w1 = (Inr r, w')"
            by simp
          then have "responseFromCache r = None" by (rule fetchRevalidate_result)
          with False fh show ?thesis by simp
        qed
      qed
    qed
  qed
qed

theorem responseFromCache_only_on_fresh_hit_witness:
  "freshHit (exampleEnv (origin 500 [] ''down'') (Num 10) True True (Num 60000)) ''http://a/x'' getRequest None
     (storedWorld None) \<and>
   map_sum id responseFromCache
     (fst (fetch (exampleEnv (origin 500 [] ''down'') (Num 10) True True (Num 60000)) ''http://a/x''
             getRequest None (storedWorld None))) = Inr (Some True)"
proof -
  let ?E = "exampleEnv (origin 500 [] ''down'') (Num 10) True True (Num 60000)"
  let ?r = "\<lparr>response = \<lparr>url = Some ''http://a/x'', status = 200,
                          headers = [(''etag'', [''v1'']),
                                     (''Content-Type'', [''text/plain;charset=UTF-8''])],
                          hasRaw = True, bodyText = []\<rparr>,
            parsedBody = TextBody ''hello'', responseFromCache = Some True,
            cacheWritePromise = None\<rparr>"
  let ?w' = "\<lparr>store = [(''httpcache:http://a/x'', storedEntry None)],
              calls = [KvGet ''httpcache:http://a/x'']\<rparr>"
  have m: "reqMethod getRequest \<noteq> Some ''HEAD''" by (simp add: getRequest_def)
  have run: "fetch ?E ''http://a/x'' getRequest None (storedWorld None) = (Inr ?r, ?w')"
    by (simp add: example_defs model_defs Let_def)
  have fh: "freshHit ?E ''http://a/x'' getRequest None (storedWorld None)"
    by (simp add: path_defs example_defs model_defs Let_def)
  from responseFromCache_only_on_fresh_hit [OF m run] fh run show ?thesis by simp
qed

text \<open>
  Claim C4 as stated fails: the flag is unset after a revalidation that reused the stored
  body, unset after one that parsed a new body, and unset, not \<^verbatim>\<open>false\<close>, after a miss.
\<close>

theorem responseFromCache_unset_counterexample:
  "revalidatesUnmodified (exampleEnv (origin 304 [] []) (Num 100) False True (Num 60000)) ''http://a/x''
     getRequest None (storedWorld None) (storedEntry None) \<and>
   map_sum id (\<lambda>r. (parsedBody r, responseFromCache r))
     (fst (fetch (exampleEnv (origin 304 [] []) (Num 100) False True (Num 60000)) ''http://a/x''
             getRequest None (storedWorld None))) = Inr (body (storedEntry None), None) \<and>
   map_sum id (\<lambda>r. (parsedBody r, responseFromCache r))
     (fst (fetch (exampleEnv (origin 200 [] ''changed'') (Num 100) False True (Num 60000)) ''http://a/x''
             getRequest None (storedWorld None))) = Inr (TextBody ''changed'', None) \<and>
   map_sum id responseFromCache
     (fst (fetch (exampleEnv (origin 200 [] ''hello'') (Num 0) False True (Num 60000)) ''http://a/x''
             getRequest None emptyWorld)) = Inr None"
  by (simp add: path_defs example_defs model_defs Let_def)

end
